theory Spec2Isabelle
  imports Main
begin

section \<open>Python values the bot relies on\<close>

text \<open>
  The three exceptions the modelled code can raise: \<^verbatim>\<open>int(s)\<close> on a string that is no
  number, a list subscript out of range, a missing dictionary key.
\<close>

datatype error = ValueError | IndexError | KeyError

text \<open>
  A list subscript \<^verbatim>\<open>xs[i]\<close>: indices \<open>0 .. n-1\<close> count from the front, \<open>-n .. -1\<close>
  from the back, anything else raises \<^verbatim>\<open>IndexError\<close>.
\<close>

definition subscript :: "nat \<Rightarrow> int \<Rightarrow> nat option" where
  "subscript n i =
     (if 0 \<le> i \<and> i < int n then Some (nat i)
      else if i < 0 \<and> - int n \<le> i then Some (nat (int n + i))
      else None)"

definition getitem :: "'a list \<Rightarrow> int \<Rightarrow> error + 'a" where
  "getitem xs i = (case subscript (length xs) i of None \<Rightarrow> Inl IndexError | Some j \<Rightarrow> Inr (xs ! j))"

definition setitem :: "'a list \<Rightarrow> int \<Rightarrow> 'a \<Rightarrow> error + 'a list" where
  "setitem xs i v = (case subscript (length xs) i of None \<Rightarrow> Inl IndexError | Some j \<Rightarrow> Inr (xs[j := v]))"

text \<open>
  A string is a list of characters, and a character stands for a code point below 256, so
  that \<open>CHR 0xE3\<close> is the letter a with tilde. \<open>isspace\<close> is \<^verbatim>\<open>str.isspace\<close> on these code
  points: the ASCII blanks, the separators 0x1C to 0x1F, the next-line character 0x85 and
  the no-break space 0xA0. \<^verbatim>\<open>str.strip()\<close> removes them at both ends.
\<close>

definition isspace :: "char \<Rightarrow> bool" where
  "isspace c = (c \<in> set [CHR '' '', CHR 0x09, CHR 0x0A, CHR 0x0B, CHR 0x0C, CHR 0x0D,
                          CHR 0x1C, CHR 0x1D, CHR 0x1E, CHR 0x1F, CHR 0x85, CHR 0xA0])"

definition strip_by :: "(char \<Rightarrow> bool) \<Rightarrow> string \<Rightarrow> string" where
  "strip_by blank s = rev (dropWhile blank (rev (dropWhile blank s)))"

definition strip :: "string \<Rightarrow> string" where
  "strip s = strip_by isspace s"

text \<open>\<^verbatim>\<open>str(n)\<close> of an integer: decimal digits, a minus sign in front of a negative one.\<close>

definition digit_char :: "nat \<Rightarrow> char" where
  "digit_char d = char_of (48 + d)"

fun str_nat :: "nat \<Rightarrow> string" where
  "str_nat n = (if n < 10 then [digit_char n] else str_nat (n div 10) @ [digit_char (n mod 10)])"

declare str_nat.simps [simp del]

definition py_str :: "int \<Rightarrow> string" where
  "py_str i = (if i < 0 then CHR ''-'' # str_nat (nat (- i)) else str_nat (nat i))"

text \<open>
  \<^verbatim>\<open>int(s)\<close> of a string: surrounding whitespace is dropped, one sign is allowed, then
  decimal digits, where single underscores may separate digits. Anything else raises
  \<^verbatim>\<open>ValueError\<close>. The whitespace \<^verbatim>\<open>int\<close> skips is the blank, the controls 0x09 to 0x0D,
  and the spaces 0x85 and 0xA0 outside ASCII; unlike \<^verbatim>\<open>strip\<close> it does not skip the
  separators 0x1C to 0x1F.
\<close>

definition int_space :: "char \<Rightarrow> bool" where
  "int_space c = (c \<in> set [CHR '' '', CHR 0x09, CHR 0x0A, CHR 0x0B, CHR 0x0C, CHR 0x0D,
                            CHR 0x85, CHR 0xA0])"

definition isdigit :: "char \<Rightarrow> bool" where
  "isdigit c = (48 \<le> (of_char c :: nat) \<and> (of_char c :: nat) \<le> 57)"

definition digit_val :: "char \<Rightarrow> nat" where
  "digit_val c = of_char c - 48"

fun parse_digits :: "nat \<Rightarrow> string \<Rightarrow> nat option" where
  "parse_digits acc [] = Some acc"
| "parse_digits acc [c] = (if isdigit c then Some (10 * acc + digit_val c) else None)"
| "parse_digits acc (c # d # cs) =
     (if isdigit c then parse_digits (10 * acc + digit_val c) (d # cs)
      else if c = CHR ''_'' \<and> isdigit d then parse_digits (10 * acc + digit_val d) cs
      else None)"

definition parse_number :: "string \<Rightarrow> nat option" where
  "parse_number s =
     (case s of
        [] \<Rightarrow> None
      | c # cs \<Rightarrow> if isdigit c then parse_digits (digit_val c) cs else None)"

definition py_int :: "string \<Rightarrow> error + int" where
  "py_int s =
     (case strip_by int_space s of
        [] \<Rightarrow> Inl ValueError
      | c # cs \<Rightarrow>
          (if c = CHR ''-'' then
             (case parse_number cs of None \<Rightarrow> Inl ValueError | Some n \<Rightarrow> Inr (- int n))
           else if c = CHR ''+'' then
             (case parse_number cs of None \<Rightarrow> Inl ValueError | Some n \<Rightarrow> Inr (int n))
           else
             (case parse_number (c # cs) of None \<Rightarrow> Inl ValueError | Some n \<Rightarrow> Inr (int n))))"


section \<open>The character sheet\<close>

text \<open>
  The sheet is a JSON object. Both command sets (\<^verbatim>\<open>rpg_core.py\<close> with \<^verbatim>\<open>bot.py\<close>, and the
  older \<^verbatim>\<open>main.py\<close>) keep the keys of \<open>sheet\<close>; each adds keys of its own. The three fact
  lists are ordered; the global index of a fact is its position in past, then present,
  then future.
\<close>

record fact_lists =
  past :: "string list"
  present :: "string list"
  future :: "string list"

record gauge =
  current :: int
  maxv :: int

record sheet =
  name :: string
  facts :: fact_lists
  ruptured_facts :: "string list"
  xp :: int
  created_at :: string
  updated_at :: string

record reserve_set =
  pv :: gauge
  pm :: gauge
  destiny :: gauge

record damage =
  physical :: int
  magic_bonus :: int

text \<open>The sheet of \<^verbatim>\<open>rpg_core.make_new_character_schema\<close> (key \<^verbatim>\<open>class\<close> is \<open>clazz\<close> here).\<close>

record character = sheet +
  schema_version :: int
  owner_id :: int
  race :: string
  clazz :: string
  archetype :: string
  reserves :: reserve_set
  damage_base :: damage
  difficulty :: string

text \<open>The sheet \<^verbatim>\<open>main.personagem_criar\<close> builds.\<close>

record legacy_character = sheet +
  user_id :: string
  flaw :: string
  condition :: gauge

datatype kind = Past | Present | Future

fun bucket :: "kind \<Rightarrow> fact_lists \<Rightarrow> string list" where
  "bucket Past fs = past fs"
| "bucket Present fs = present fs"
| "bucket Future fs = future fs"

fun put_bucket :: "kind \<Rightarrow> string list \<Rightarrow> fact_lists \<Rightarrow> fact_lists" where
  "put_bucket Past arr fs = fs\<lparr>past := arr\<rparr>"
| "put_bucket Present arr fs = fs\<lparr>present := arr\<rparr>"
| "put_bucket Future arr fs = fs\<lparr>future := arr\<rparr>"

definition kinds :: "kind list" where
  "kinds = [Past, Present, Future]"

fun kind_label :: "kind \<Rightarrow> string" where
  "kind_label Past = ''Passado''"
| "kind_label Present = ''Presente''"
| "kind_label Future = ''Futuro''"

definition total_facts :: "fact_lists \<Rightarrow> nat" where
  "total_facts fs = length (past fs) + length (present fs) + length (future fs)"


section \<open>Fact helpers of rpg_core.py\<close>

text \<open>
  \<^verbatim>\<open>_all_facts_with_index\<close>: the two nested loops append \<open>(kind, text, idx)\<close> to \<open>out\<close>
  and count \<open>idx\<close> up; the pair \<open>(out, idx)\<close> is the loop state.
\<close>

fun index_bucket :: "kind \<Rightarrow> string list \<Rightarrow> (kind \<times> string \<times> nat) list \<times> nat \<Rightarrow>
    (kind \<times> string \<times> nat) list \<times> nat" where
  "index_bucket k [] (out, idx) = (out, idx)"
| "index_bucket k (f # rest) (out, idx) = index_bucket k rest (out @ [(k, f, idx)], idx + 1)"

definition all_facts_with_index :: "'a sheet_scheme \<Rightarrow> (kind \<times> string \<times> nat) list" where
  "all_facts_with_index char =
     fst (fold (\<lambda>k st. index_bucket k (bucket k (facts char)) st) kinds ([], 0))"

text \<open>The expression \<^verbatim>\<open>_all_facts_with_index(char)[idx][1]\<close> of the edit and rupture flows.\<close>

definition fact_text_at :: "'a sheet_scheme \<Rightarrow> int \<Rightarrow> error + string" where
  "fact_text_at char idx =
     (case getitem (all_facts_with_index char) idx of
        Inl e \<Rightarrow> Inl e
      | Inr (k, f, g) \<Rightarrow> Inr f)"

text \<open>\<^verbatim>\<open>short = f if len(f) <= 80 else f[:77] + "..."\<close> and the label built from it.\<close>

definition short :: "string \<Rightarrow> string" where
  "short f = (if length f \<le> 80 then f else take 77 f @ ''...'')"

definition option_label :: "kind \<Rightarrow> string \<Rightarrow> string" where
  "option_label k f = kind_label k @ '': '' @ short f"

definition options_all_facts :: "'a sheet_scheme \<Rightarrow> (string \<times> string) list" where
  "options_all_facts char =
     map (\<lambda>(k, f, idx). (option_label k f, py_str (int idx))) (all_facts_with_index char)"

definition options_non_ruptured_facts :: "'a sheet_scheme \<Rightarrow> (string \<times> string) list" where
  "options_non_ruptured_facts char =
     map (\<lambda>(k, f, idx). (option_label k f, py_str (int idx)))
       (filter (\<lambda>(k, f, idx). f \<notin> set (ruptured_facts char)) (all_facts_with_index char))"

text \<open>
  \<^verbatim>\<open>_set_fact_by_global_index\<close>: the loop over the three kinds with the running offset
  \<open>idx\<close>. The only test is \<^verbatim>\<open>global_index < idx + len(arr)\<close>; the subscript
  \<^verbatim>\<open>arr[local]\<close> then follows Python's rules. The result is the old text (or \<open>None\<close>)
  and the sheet as the call leaves it.
\<close>

fun set_fact_loop :: "kind list \<Rightarrow> nat \<Rightarrow> fact_lists \<Rightarrow> int \<Rightarrow> string \<Rightarrow>
    error + (string option \<times> fact_lists)" where
  "set_fact_loop [] idx fs global_index new_text = Inr (None, fs)"
| "set_fact_loop (k # ks) idx fs global_index new_text =
     (let arr = bucket k fs in
      if global_index < int idx + int (length arr) then
        (let loc = global_index - int idx in
         case getitem arr loc of
           Inl e \<Rightarrow> Inl e
         | Inr old \<Rightarrow>
             (case setitem arr loc new_text of
                Inl e \<Rightarrow> Inl e
              | Inr arr' \<Rightarrow> Inr (Some old, put_bucket k arr' fs)))
      else set_fact_loop ks (idx + length arr) fs global_index new_text)"

definition set_fact_by_global_index :: "'a sheet_scheme \<Rightarrow> int \<Rightarrow> string \<Rightarrow>
    error + (string option \<times> 'a sheet_scheme)" where
  "set_fact_by_global_index char global_index new_text =
     (case set_fact_loop kinds 0 (facts char) global_index new_text of
        Inl e \<Rightarrow> Inl e
      | Inr (old, fs) \<Rightarrow> Inr (old, char\<lparr>facts := fs\<rparr>))"


section \<open>Fact helpers of main.py\<close>

definition flatten_facts :: "'a sheet_scheme \<Rightarrow> string list" where
  "flatten_facts char = past (facts char) @ present (facts char) @ future (facts char)"

text \<open>\<^verbatim>\<open>old = arr[i]; arr[i] = new_text\<close>, the pair of statements of every branch.\<close>

definition swap_at :: "string list \<Rightarrow> int \<Rightarrow> string \<Rightarrow> error + (string \<times> string list)" where
  "swap_at arr i new_text =
     (case getitem arr i of
        Inl e \<Rightarrow> Inl e
      | Inr old \<Rightarrow> (case setitem arr i new_text of Inl e \<Rightarrow> Inl e | Inr arr' \<Rightarrow> Inr (old, arr')))"

definition set_fact_by_index :: "'a sheet_scheme \<Rightarrow> int \<Rightarrow> string \<Rightarrow>
    error + (string option \<times> 'a sheet_scheme)" where
  "set_fact_by_index char index new_text =
     (let fs = facts char;
          total = int (length (past fs)) + int (length (present fs)) + int (length (future fs))
      in
      if index < 0 \<or> index \<ge> total then Inr (None, char)
      else if index < int (length (past fs)) then
        (case swap_at (past fs) index new_text of
           Inl e \<Rightarrow> Inl e
         | Inr (old, arr) \<Rightarrow> Inr (Some old, char\<lparr>facts := fs\<lparr>past := arr\<rparr>\<rparr>))
      else
        (let index = index - int (length (past fs)) in
         if index < int (length (present fs)) then
           (case swap_at (present fs) index new_text of
              Inl e \<Rightarrow> Inl e
            | Inr (old, arr) \<Rightarrow> Inr (Some old, char\<lparr>facts := fs\<lparr>present := arr\<rparr>\<rparr>))
         else
           (let index = index - int (length (present fs)) in
            case swap_at (future fs) index new_text of
              Inl e \<Rightarrow> Inl e
            | Inr (old, arr) \<Rightarrow> Inr (Some old, char\<lparr>facts := fs\<lparr>future := arr\<rparr>\<rparr>))))"

text \<open>
  The option builders of main.py. \<open>scan\<close> is the closure of \<^verbatim>\<open>list_all_fact_options\<close>,
  \<open>scan_not_ruptured\<close> the one of \<^verbatim>\<open>list_fact_options_not_ruptured\<close>; the pair
  \<open>(options, idx)\<close> is the \<^verbatim>\<open>nonlocal\<close> state both closures update.
\<close>

fun scan :: "string \<Rightarrow> string list \<Rightarrow> (string \<times> string) list \<times> nat \<Rightarrow>
    (string \<times> string) list \<times> nat" where
  "scan kind_name [] (options, idx) = (options, idx)"
| "scan kind_name (fact_text # arr) (options, idx) =
     (let current_index = idx; idx = idx + 1 in
      if fact_text = [] then scan kind_name arr (options, idx)
      else scan kind_name arr
             (options @ [(kind_name @ '': '' @ short fact_text, py_str (int current_index))], idx))"

definition list_all_fact_options :: "'a sheet_scheme \<Rightarrow> (string \<times> string) list" where
  "list_all_fact_options char =
     fst (scan ''Futuro'' (future (facts char))
           (scan ''Presente'' (present (facts char))
             (scan ''Passado'' (past (facts char)) ([], 0))))"

fun scan_not_ruptured :: "string set \<Rightarrow> string \<Rightarrow> string list \<Rightarrow> (string \<times> string) list \<times> nat \<Rightarrow>
    (string \<times> string) list \<times> nat" where
  "scan_not_ruptured ruptured kind_name [] (options, idx) = (options, idx)"
| "scan_not_ruptured ruptured kind_name (fact_text # arr) (options, idx) =
     (let current_index = idx; idx = idx + 1 in
      if fact_text = [] then scan_not_ruptured ruptured kind_name arr (options, idx)
      else if fact_text \<in> ruptured then scan_not_ruptured ruptured kind_name arr (options, idx)
      else scan_not_ruptured ruptured kind_name arr
             (options @ [(kind_name @ '': '' @ short fact_text, py_str (int current_index))], idx))"

definition list_fact_options_not_ruptured :: "'a sheet_scheme \<Rightarrow> (string \<times> string) list" where
  "list_fact_options_not_ruptured char =
     (let ruptured = set (ruptured_facts char) in
      fst (scan_not_ruptured ruptured ''Futuro'' (future (facts char))
            (scan_not_ruptured ruptured ''Presente'' (present (facts char))
              (scan_not_ruptured ruptured ''Passado'' (past (facts char)) ([], 0)))))"


section \<open>Prompts\<close>

text \<open>
  A menu entry (\<^verbatim>\<open>discord.SelectOption\<close>; its \<^verbatim>\<open>value\<close> is \<open>opt_value\<close> here). Picking the
  \<open>k\<close>-th entry on display delivers that entry's value as \<^verbatim>\<open>select.values[0]\<close>; the
  platform delivers no pick of an entry that is not on display.
\<close>

record select_option =
  label :: string
  description :: "string option"
  opt_value :: string

record interaction =
  actor :: int
  choice :: nat

definition values0 :: "select_option list \<Rightarrow> nat \<Rightarrow> string option" where
  "values0 menu k = (if k < length menu then Some (opt_value (menu ! k)) else None)"

text \<open>
  \<^verbatim>\<open>rpg_core.dm_select_one\<close>. The menu is built from the first 25 pairs, each entry with
  \<^verbatim>\<open>value=label\<close>; the second component only becomes the description. \<open>select_wait\<close> is the
  callback run on each incoming pick until one by the prompt's owner arrives; the end of
  the list is the timeout.
\<close>

definition select_options :: "(string \<times> string) list \<Rightarrow> select_option list" where
  "select_options option_tuples =
     map (\<lambda>(lbl, desc).
            \<lparr>label = lbl,
             description = (if desc \<noteq> [] then Some (take 100 desc) else None),
             opt_value = lbl\<rparr>)
       (take 25 option_tuples)"

fun select_wait :: "int \<Rightarrow> select_option list \<Rightarrow> interaction list \<Rightarrow> string option" where
  "select_wait uid menu [] = None"
| "select_wait uid menu (i # later) =
     (if actor i \<noteq> uid then select_wait uid menu later
      else (case values0 menu (choice i) of
              None \<Rightarrow> select_wait uid menu later
            | Some v \<Rightarrow> Some v))"

definition dm_select_one :: "int \<Rightarrow> (string \<times> string) list \<Rightarrow> interaction list \<Rightarrow> string option" where
  "dm_select_one uid option_tuples picks = select_wait uid (select_options option_tuples) picks"

text \<open>
  \<^verbatim>\<open>rpg_core.dm_ask_text\<close>: the content of the owner's next message, stripped; \<open>None\<close> is
  the timeout.
\<close>

definition dm_ask_text :: "string option \<Rightarrow> string option" where
  "dm_ask_text incoming = map_option strip incoming"

text \<open>The menus of main.py (\<^verbatim>\<open>RupturaSelect\<close>, \<^verbatim>\<open>EditarFatoSelect\<close>) keep label and value apart.\<close>

definition discord_options :: "(string \<times> string) list \<Rightarrow> select_option list" where
  "discord_options options_pairs =
     map (\<lambda>(lbl, v). \<lparr>label = lbl, description = None, opt_value = v\<rparr>) (take 25 options_pairs)"

text \<open>What a flow sent to the user: a menu or a question.\<close>

datatype prompt = Menu "select_option list" | Question

text \<open>The messages the commands answer with; the wording is left out.\<close>

datatype reply =
    NoSheet
  | SheetNotFound
  | InsufficientXP int int
  | Cancelled
  | NoFactsToEdit
  | InvalidIndex
  | FactUpdated
  | FactAdded string int int
  | NoFactsToRupture
  | RuptureDone
  | XpNow int
  | NotYours
  | FactNotFound
  | AlreadyRuptured
  | RuptureApplied string
  | EmptyFact
  | FactEdited string string
  | GuildOnly
  | MasterOnly
  | NoSheetYet
  | XpIs int
  | NeedXp int
  | ChooseTimeline int
  | ChooseFact
  | WizardOpen
  | SheetSaved
  | TimedOut

text \<open>
  The outcome of a dialog flow of rpg_core.py: the returned pair or the exception raised,
  the prompts sent, and the stored document afterwards.
\<close>

record 'c outcome =
  result :: "error + bool \<times> reply"
  prompts :: "prompt list"
  store :: "string \<rightharpoonup> 'c"


section \<open>Workflows of rpg_core.py\<close>

text \<open>
  The document maps \<^verbatim>\<open>str(user.id)\<close> to the sheet. A flow loads it, and stores it again
  only where the code reaches \<^verbatim>\<open>save_data\<close>. \<open>picks\<close> are the menu picks arriving
  before the timeout, \<open>typed\<close> is the owner's next message (\<open>None\<close>: timeout), \<open>now\<close>
  is the reading of \<^verbatim>\<open>utc_now_iso()\<close>.
\<close>

definition XP_COST_NEW_FACT :: int where
  "XP_COST_NEW_FACT = 3"

definition timeline_tuples :: "(string \<times> string) list" where
  "timeline_tuples =
     [(''Passado'', ''Um evento/verdade do passado.''),
      (''Presente'', ''Algo verdadeiro agora.''),
      (''Futuro'', ''Press'' @ [CHR 0xE1] @ ''gio/promessa/destino.'')]"

text \<open>The lookup \<^verbatim>\<open>{"Passado": "past", "Presente": "present", "Futuro": "future"}[kind]\<close>.\<close>

definition kind_key :: "string \<Rightarrow> error + kind" where
  "kind_key s =
     (if s = ''Passado'' then Inr Past
      else if s = ''Presente'' then Inr Present
      else if s = ''Futuro'' then Inr Future
      else Inl KeyError)"

definition add_fact_with_xp :: "int \<Rightarrow> interaction list \<Rightarrow> string option \<Rightarrow> string \<Rightarrow>
    (string \<rightharpoonup> character) \<Rightarrow> character outcome" where
  "add_fact_with_xp uid picks typed now data =
     (case data (py_str uid) of
        None \<Rightarrow> \<lparr>result = Inr (False, NoSheet), prompts = [], store = data\<rparr>
      | Some char \<Rightarrow>
          (let x = xp char in
           if x < XP_COST_NEW_FACT then
             \<lparr>result = Inr (False, InsufficientXP x XP_COST_NEW_FACT), prompts = [], store = data\<rparr>
           else
             (let sent = [Menu (select_options timeline_tuples)] in
              case dm_select_one uid timeline_tuples picks of
                None \<Rightarrow> \<lparr>result = Inr (False, Cancelled), prompts = sent, store = data\<rparr>
              | Some chosen_kind \<Rightarrow>
                  if chosen_kind = [] then
                    \<lparr>result = Inr (False, Cancelled), prompts = sent, store = data\<rparr>
                  else
                    (case kind_key chosen_kind of
                       Inl e \<Rightarrow> \<lparr>result = Inl e, prompts = sent, store = data\<rparr>
                     | Inr k \<Rightarrow>
                         (let sent = sent @ [Question] in
                          case dm_ask_text typed of
                            None \<Rightarrow> \<lparr>result = Inr (False, Cancelled), prompts = sent, store = data\<rparr>
                          | Some txt \<Rightarrow>
                              if txt = [] then
                                \<lparr>result = Inr (False, Cancelled), prompts = sent, store = data\<rparr>
                              else
                                (let char = char\<lparr>xp := x - XP_COST_NEW_FACT,
                                       facts := put_bucket k (bucket k (facts char) @ [txt]) (facts char),
                                       updated_at := now\<rparr>
                                 in \<lparr>result = Inr (True, FactAdded chosen_kind XP_COST_NEW_FACT (xp char)),
                                     prompts = sent,
                                     store = data(py_str uid \<mapsto> char)\<rparr>))))))"

text \<open>
  The end of \<^verbatim>\<open>edit_fact_flow\<close>, from \<^verbatim>\<open>_set_fact_by_global_index(char, idx, txt)\<close> to the
  new \<^verbatim>\<open>updated_at\<close>: \<open>None\<close> is the branch \<^verbatim>\<open>old_text is None\<close>.
\<close>

definition edit_fact_apply :: "'a sheet_scheme \<Rightarrow> int \<Rightarrow> string \<Rightarrow> string \<Rightarrow>
    error + 'a sheet_scheme option" where
  "edit_fact_apply char idx txt now =
     (case set_fact_by_global_index char idx txt of
        Inl e \<Rightarrow> Inl e
      | Inr (None, char) \<Rightarrow> Inr None
      | Inr (Some old_text, char) \<Rightarrow>
          (let rupt = ruptured_facts char;
               char = (if old_text \<in> set rupt
                       then char\<lparr>ruptured_facts := filter (\<lambda>x. x \<noteq> old_text) rupt @ [txt]\<rparr>
                       else char)
           in Inr (Some (char\<lparr>updated_at := now\<rparr>))))"

definition edit_fact_flow :: "int \<Rightarrow> interaction list \<Rightarrow> string option \<Rightarrow> string \<Rightarrow>
    (string \<rightharpoonup> character) \<Rightarrow> character outcome" where
  "edit_fact_flow uid picks typed now data =
     (case data (py_str uid) of
        None \<Rightarrow> \<lparr>result = Inr (False, NoSheet), prompts = [], store = data\<rparr>
      | Some char \<Rightarrow>
          (let options = options_all_facts char in
           if options = [] then \<lparr>result = Inr (False, NoFactsToEdit), prompts = [], store = data\<rparr>
           else
             (let sent = [Menu (select_options options)] in
              case dm_select_one uid options picks of
                None \<Rightarrow> \<lparr>result = Inr (False, Cancelled), prompts = sent, store = data\<rparr>
              | Some chosen \<Rightarrow>
                  if chosen = [] then \<lparr>result = Inr (False, Cancelled), prompts = sent, store = data\<rparr>
                  else
                    (case py_int chosen of
                       Inl e \<Rightarrow> \<lparr>result = Inl e, prompts = sent, store = data\<rparr>
                     | Inr idx \<Rightarrow>
                         (case fact_text_at char idx of
                            Inl e \<Rightarrow> \<lparr>result = Inl e, prompts = sent, store = data\<rparr>
                          | Inr old \<Rightarrow>
                              (let sent = sent @ [Question] in
                               case dm_ask_text typed of
                                 None \<Rightarrow> \<lparr>result = Inr (False, Cancelled), prompts = sent, store = data\<rparr>
                               | Some txt \<Rightarrow>
                                   if txt = [] then
                                     \<lparr>result = Inr (False, Cancelled), prompts = sent, store = data\<rparr>
                                   else
                                     (case edit_fact_apply char idx txt now of
                                        Inl e \<Rightarrow> \<lparr>result = Inl e, prompts = sent, store = data\<rparr>
                                      | Inr None \<Rightarrow>
                                          \<lparr>result = Inr (False, InvalidIndex), prompts = sent, store = data\<rparr>
                                      | Inr (Some char) \<Rightarrow>
                                          \<lparr>result = Inr (True, FactUpdated), prompts = sent,
                                           store = data(py_str uid \<mapsto> char)\<rparr>)))))))"

text \<open>
  The end of \<^verbatim>\<open>rupture_fact_flow\<close>, from \<^verbatim>\<open>fact_text = _all_facts_with_index(char)[idx][1]\<close>
  to the new \<^verbatim>\<open>updated_at\<close>.
\<close>

definition rupture_apply :: "character \<Rightarrow> int \<Rightarrow> string \<Rightarrow> error + character" where
  "rupture_apply char idx now =
     (case fact_text_at char idx of
        Inl e \<Rightarrow> Inl e
      | Inr fact_text \<Rightarrow>
          (let rupt = ruptured_facts char;
               rupt = (if fact_text \<notin> set rupt then rupt @ [fact_text] else rupt);
               res = reserves char
           in Inr (char\<lparr>ruptured_facts := rupt,
                        xp := xp char + 1,
                        reserves := res\<lparr>pv := (pv res)\<lparr>current := maxv (pv res)\<rparr>,
                                        pm := (pm res)\<lparr>current := maxv (pm res)\<rparr>\<rparr>,
                        updated_at := now\<rparr>)))"

definition rupture_fact_flow :: "int \<Rightarrow> interaction list \<Rightarrow> string \<Rightarrow>
    (string \<rightharpoonup> character) \<Rightarrow> character outcome" where
  "rupture_fact_flow uid picks now data =
     (case data (py_str uid) of
        None \<Rightarrow> \<lparr>result = Inr (False, NoSheet), prompts = [], store = data\<rparr>
      | Some char \<Rightarrow>
          (let options = options_non_ruptured_facts char in
           if options = [] then \<lparr>result = Inr (False, NoFactsToRupture), prompts = [], store = data\<rparr>
           else
             (let sent = [Menu (select_options options)] in
              case dm_select_one uid options picks of
                None \<Rightarrow> \<lparr>result = Inr (False, Cancelled), prompts = sent, store = data\<rparr>
              | Some chosen \<Rightarrow>
                  if chosen = [] then \<lparr>result = Inr (False, Cancelled), prompts = sent, store = data\<rparr>
                  else
                    (case py_int chosen of
                       Inl e \<Rightarrow> \<lparr>result = Inl e, prompts = sent, store = data\<rparr>
                     | Inr idx \<Rightarrow>
                         (case rupture_apply char idx now of
                            Inl e \<Rightarrow> \<lparr>result = Inl e, prompts = sent, store = data\<rparr>
                          | Inr char \<Rightarrow>
                              \<lparr>result = Inr (True, RuptureDone), prompts = sent,
                               store = data(py_str uid \<mapsto> char)\<rparr>)))))"

definition xp_adjust :: "int \<Rightarrow> int \<Rightarrow> string \<Rightarrow> (string \<rightharpoonup> character) \<Rightarrow>
    (bool \<times> reply) \<times> (string \<rightharpoonup> character)" where
  "xp_adjust owner delta now data =
     (case data (py_str owner) of
        None \<Rightarrow> ((False, SheetNotFound), data)
      | Some char \<Rightarrow>
          (let char = char\<lparr>xp := max 0 (xp char + delta), updated_at := now\<rparr>
           in ((True, XpNow (xp char)), data(py_str owner \<mapsto> char))))"


section \<open>The creation wizard of rpg_core.py and bot.py\<close>

definition DEFAULT_DESTINY_MAX :: int where
  "DEFAULT_DESTINY_MAX = 2"

definition RACES :: "(string \<times> string) list" where
  "RACES =
     [(''Humano'', ''Vers'' @ [CHR 0xE1] @ ''til e adapt'' @ [CHR 0xE1] @ ''vel.''),
      (''An'' @ [CHR 0xE3] @ ''o'', ''Resiliente, tradi'' @ [CHR 0xE7, CHR 0xE3] @ ''o e forja.''),
      (''Elfo'', ''Longevidade, precis'' @ [CHR 0xE3] @ ''o e magia.''),
      (''Halfling'', ''Sortudo, discreto e '' @ [CHR 0xE1] @ ''gil.'')]"

definition CLASSES :: "(string \<times> string) list" where
  "CLASSES =
     [(''Guerreiro'', ''Combate direto e resist'' @ [CHR 0xEA] @ ''ncia.''),
      (''Ladino'', ''Furtividade, per'' @ [CHR 0xED] @ ''cia, truques.''),
      (''Cl'' @ [CHR 0xE9] @ ''rigo'', ''F'' @ [CHR 0xE9] @ '', cura e suporte.''),
      (''Mago'', ''Magias e conhecimento arcano.'')]"

record archetype_row =
  arch_label :: string
  arch_pv :: int
  arch_pm :: int
  dano_fisico_base :: int
  bonus_magico :: int

definition ARCHETYPES :: "(string \<times> archetype_row) list" where
  "ARCHETYPES =
     [(''linha_de_frente'',
         \<lparr>arch_label = ''Linha de frente'', arch_pv = 8, arch_pm = 3, dano_fisico_base = 2, bonus_magico = 0\<rparr>),
      (''combatente'',
         \<lparr>arch_label = ''Combatente'', arch_pv = 7, arch_pm = 3, dano_fisico_base = 3, bonus_magico = 0\<rparr>),
      (''especialista'',
         \<lparr>arch_label = ''Especialista'', arch_pv = 6, arch_pm = 4, dano_fisico_base = 2, bonus_magico = 0\<rparr>),
      (''utilitario'',
         \<lparr>arch_label = ''Utilit'' @ [CHR 0xE1] @ ''rio'', arch_pv = 5, arch_pm = 4, dano_fisico_base = 2, bonus_magico = 0\<rparr>),
      (''conjurador'',
         \<lparr>arch_label = ''Conjurador'', arch_pv = 4, arch_pm = 5, dano_fisico_base = 1, bonus_magico = 1\<rparr>)]"

definition ARCHETYPE_ORDER :: "string list" where
  "ARCHETYPE_ORDER = [''linha_de_frente'', ''combatente'', ''especialista'', ''utilitario'', ''conjurador'']"

text \<open>\<^verbatim>\<open>make_new_character_schema\<close>; \<open>t0\<close> and \<open>t1\<close> are its two clock readings.\<close>

definition make_new_character_schema :: "int \<Rightarrow> string \<Rightarrow> string \<Rightarrow> character" where
  "make_new_character_schema uid t0 t1 =
     \<lparr>name = [],
      facts = \<lparr>past = [], present = [], future = []\<rparr>,
      ruptured_facts = [],
      xp = 0,
      created_at = t0,
      updated_at = t1,
      schema_version = 2,
      owner_id = uid,
      race = [],
      clazz = [],
      archetype = [],
      reserves = \<lparr>pv = \<lparr>current = 0, maxv = 0\<rparr>,
                  pm = \<lparr>current = 0, maxv = 0\<rparr>,
                  destiny = \<lparr>current = DEFAULT_DESTINY_MAX, maxv = DEFAULT_DESTINY_MAX\<rparr>\<rparr>,
      damage_base = \<lparr>physical = 0, magic_bonus = 0\<rparr>,
      difficulty = []\<rparr>"

definition apply_archetype :: "character \<Rightarrow> string \<Rightarrow> error + character" where
  "apply_archetype char archetype_key =
     (case map_of ARCHETYPES archetype_key of
        None \<Rightarrow> Inl KeyError
      | Some arch \<Rightarrow>
          Inr (char\<lparr>archetype := archetype_key,
                    reserves := \<lparr>pv = \<lparr>current = arch_pv arch, maxv = arch_pv arch\<rparr>,
                                pm = \<lparr>current = arch_pm arch, maxv = arch_pm arch\<rparr>,
                                destiny = \<lparr>current = DEFAULT_DESTINY_MAX, maxv = DEFAULT_DESTINY_MAX\<rparr>\<rparr>,
                    damage_base := \<lparr>physical = dano_fisico_base arch, magic_bonus = bonus_magico arch\<rparr>\<rparr>))"

text \<open>\<^verbatim>\<open>dm_select_archetype\<close>: one entry per key of \<^verbatim>\<open>ARCHETYPE_ORDER\<close>, the key as value.\<close>

fun archetype_menu :: "string list \<Rightarrow> error + select_option list" where
  "archetype_menu [] = Inr []"
| "archetype_menu (key # keys) =
     (case map_of ARCHETYPES key of
        None \<Rightarrow> Inl KeyError
      | Some a \<Rightarrow>
          (let desc = ''PV '' @ py_str (arch_pv a) @ '' / PM '' @ py_str (arch_pm a) @ '' / Dano ''
                        @ py_str (dano_fisico_base a)
                        @ (if bonus_magico a \<noteq> 0 then '' / Magia +'' @ py_str (bonus_magico a) else [])
           in case archetype_menu keys of
                Inl e \<Rightarrow> Inl e
              | Inr menu \<Rightarrow>
                  Inr (\<lparr>label = arch_label a, description = Some (take 100 desc), opt_value = key\<rparr> # menu)))"

definition dm_select_archetype :: "int \<Rightarrow> interaction list \<Rightarrow> error + string option" where
  "dm_select_archetype uid picks =
     (case archetype_menu ARCHETYPE_ORDER of
        Inl e \<Rightarrow> Inl e
      | Inr menu \<Rightarrow> Inr (select_wait uid menu picks))"

text \<open>
  The wizard reads the owner's messages in order (\<open>typed\<close>; a missing message is a
  timeout). \<open>ask\<close> is \<^verbatim>\<open>dm_ask_text\<close> followed by the test \<^verbatim>\<open>if not txt: return None\<close>;
  \<open>ask_facts n\<close> is the loop \<^verbatim>\<open>for i in range(1, n + 1)\<close> that appends each answer.
\<close>

definition ask :: "string option list \<Rightarrow> (string \<times> string option list) option" where
  "ask typed =
     (case typed of
        [] \<Rightarrow> None
      | m # later \<Rightarrow>
          (case dm_ask_text m of
             None \<Rightarrow> None
           | Some txt \<Rightarrow> if txt = [] then None else Some (txt, later)))"

fun ask_facts :: "nat \<Rightarrow> string option list \<Rightarrow> string list \<Rightarrow> (string list \<times> string option list) option" where
  "ask_facts 0 typed arr = Some (arr, typed)"
| "ask_facts (Suc n) typed arr =
     (case ask typed of
        None \<Rightarrow> None
      | Some (txt, later) \<Rightarrow> ask_facts n later (arr @ [txt]))"

definition chosen_or_abort :: "string option \<Rightarrow> string option" where
  "chosen_or_abort c = (case c of None \<Rightarrow> None | Some v \<Rightarrow> if v = [] then None else Some v)"

definition run_character_wizard :: "bool \<Rightarrow> int \<Rightarrow> string option list \<Rightarrow> interaction list \<Rightarrow>
    interaction list \<Rightarrow> interaction list \<Rightarrow> string \<Rightarrow> string \<Rightarrow> string \<Rightarrow> error + character option" where
  "run_character_wizard busy uid typed race_picks class_picks archetype_picks t0 t1 t2 =
     (if busy then Inr None
      else
        (let char = make_new_character_schema uid t0 t1 in
         case ask typed of None \<Rightarrow> Inr None | Some (nm, typed) \<Rightarrow>
         (let char = char\<lparr>name := nm\<rparr> in
          case chosen_or_abort (dm_select_one uid RACES race_picks) of None \<Rightarrow> Inr None | Some rc \<Rightarrow>
          (let char = char\<lparr>race := rc\<rparr> in
           case chosen_or_abort (dm_select_one uid CLASSES class_picks) of None \<Rightarrow> Inr None | Some cl \<Rightarrow>
           (let char = char\<lparr>clazz := cl\<rparr> in
            case dm_select_archetype uid archetype_picks of Inl e \<Rightarrow> Inl e | Inr picked \<Rightarrow>
            (case chosen_or_abort picked of None \<Rightarrow> Inr None | Some archetype_key \<Rightarrow>
             (case apply_archetype char archetype_key of Inl e \<Rightarrow> Inl e | Inr char \<Rightarrow>
              (case ask_facts 3 typed (past (facts char)) of None \<Rightarrow> Inr None | Some (pa, typed) \<Rightarrow>
               (case ask_facts 3 typed (present (facts char)) of None \<Rightarrow> Inr None | Some (pr, typed) \<Rightarrow>
                (case ask_facts 1 typed (future (facts char)) of None \<Rightarrow> Inr None | Some (fu, typed) \<Rightarrow>
                 (case ask typed of None \<Rightarrow> Inr None | Some (diff, typed) \<Rightarrow>
                    Inr (Some (char\<lparr>facts := \<lparr>past = pa, present = pr, future = fu\<rparr>,
                                     difficulty := diff,
                                     updated_at := t2\<rparr>)))))))))))))"

definition save_character :: "int \<Rightarrow> character \<Rightarrow> (string \<rightharpoonup> character) \<Rightarrow> (string \<rightharpoonup> character)" where
  "save_character owner char data = data(py_str owner \<mapsto> char)"

text \<open>\<^verbatim>\<open>bot.criar_personagem\<close>: the wizard's sheet, if there is one, is saved as it is.\<close>

definition criar_personagem :: "bool \<Rightarrow> int \<Rightarrow> string option list \<Rightarrow> interaction list \<Rightarrow>
    interaction list \<Rightarrow> interaction list \<Rightarrow> string \<Rightarrow> string \<Rightarrow> string \<Rightarrow>
    (string \<rightharpoonup> character) \<Rightarrow> error + (string \<rightharpoonup> character)" where
  "criar_personagem busy uid typed race_picks class_picks archetype_picks t0 t1 t2 data =
     (case run_character_wizard busy uid typed race_picks class_picks archetype_picks t0 t1 t2 of
        Inl e \<Rightarrow> Inl e
      | Inr None \<Rightarrow> Inr data
      | Inr (Some char) \<Rightarrow> Inr (save_character uid char data))"


section \<open>Commands of main.py\<close>

text \<open>
  What a command of main.py sees of the interaction: whether it runs in a guild, who
  invoked it, and whether \<^verbatim>\<open>is_master\<close> holds for the invoker. \<open>usuario\<close> is the optional
  target member.
\<close>

record command_ctx =
  in_guild :: bool
  invoker :: int
  invoker_is_master :: bool

definition DEFAULT_CONDITION_MAX :: int where
  "DEFAULT_CONDITION_MAX = 3"

text \<open>
  \<^verbatim>\<open>ensure_char_defaults\<close> adds the keys a stored sheet lacks. Every key it adds is a field
  of \<open>legacy_character\<close>, so on a sheet of that type it changes nothing.
\<close>

definition ensure_char_defaults :: "legacy_character \<Rightarrow> legacy_character" where
  "ensure_char_defaults char = char"

definition target_of :: "command_ctx \<Rightarrow> int option \<Rightarrow> int" where
  "target_of ix usuario = (case usuario of Some member \<Rightarrow> member | None \<Rightarrow> invoker ix)"

definition personagem_xp :: "command_ctx \<Rightarrow> int \<Rightarrow> int option \<Rightarrow> string \<Rightarrow>
    (string \<rightharpoonup> legacy_character) \<Rightarrow> reply \<times> (string \<rightharpoonup> legacy_character)" where
  "personagem_xp ix delta usuario now data =
     (if \<not> in_guild ix then (GuildOnly, data)
      else if usuario \<noteq> None \<and> \<not> invoker_is_master ix then (MasterOnly, data)
      else
        (let uid = py_str (target_of ix usuario) in
         case data uid of
           None \<Rightarrow> (NoSheetYet, data)
         | Some char \<Rightarrow>
             (let char = ensure_char_defaults char;
                  char = char\<lparr>xp := xp char + delta, updated_at := now\<rparr>
              in (XpIs (xp char), data(uid \<mapsto> char)))))"

definition timeline_menu :: "select_option list" where
  "timeline_menu =
     [\<lparr>label = ''Passado'', description = None, opt_value = ''past''\<rparr>,
      \<lparr>label = ''Presente'', description = None, opt_value = ''present''\<rparr>,
      \<lparr>label = ''Futuro'', description = None, opt_value = ''future''\<rparr>]"

text \<open>
  \<^verbatim>\<open>personagem_novo_fato\<close>: the answer, the view sent with it (the timeline menu, from
  which alone the text modal opens), and the stored document, which the command never
  writes.
\<close>

definition personagem_novo_fato :: "command_ctx \<Rightarrow> int option \<Rightarrow> (string \<rightharpoonup> legacy_character) \<Rightarrow>
    reply \<times> select_option list option \<times> (string \<rightharpoonup> legacy_character)" where
  "personagem_novo_fato ix usuario data =
     (if \<not> in_guild ix then (GuildOnly, None, data)
      else if usuario \<noteq> None \<and> \<not> invoker_is_master ix then (MasterOnly, None, data)
      else
        (let uid = py_str (target_of ix usuario) in
         case data uid of
           None \<Rightarrow> (NoSheetYet, None, data)
         | Some char \<Rightarrow>
             (let char = ensure_char_defaults char; x = xp char in
              if x < XP_COST_NEW_FACT then (NeedXp x, None, data)
              else (ChooseTimeline x, Some timeline_menu, data))))"

text \<open>
  \<^verbatim>\<open>RupturaSelect.callback\<close>; \<open>picked\<close> is \<^verbatim>\<open>self.values[0]\<close>, \<open>who\<close> the user of the
  interaction.
\<close>

definition RupturaSelect_callback :: "int \<Rightarrow> string \<Rightarrow> int \<Rightarrow> string \<Rightarrow> string \<Rightarrow>
    (string \<rightharpoonup> legacy_character) \<Rightarrow> error + reply \<times> (string \<rightharpoonup> legacy_character)" where
  "RupturaSelect_callback requester_id target_user_id who picked now data =
     (if who \<noteq> requester_id then Inr (NotYours, data)
      else
        (case py_int picked of
           Inl e \<Rightarrow> Inl e
         | Inr chosen_index \<Rightarrow>
             (case data target_user_id of
                None \<Rightarrow> Inr (SheetNotFound, data)
              | Some char \<Rightarrow>
                  (let char = ensure_char_defaults char; flat = flatten_facts char in
                   if chosen_index < 0 \<or> chosen_index \<ge> int (length flat) then Inr (FactNotFound, data)
                   else
                     (let fact_text = flat ! nat chosen_index; ruptured = ruptured_facts char in
                      if fact_text \<in> set ruptured then Inr (AlreadyRuptured, data)
                      else
                        (let char = char\<lparr>ruptured_facts := ruptured @ [fact_text], updated_at := now\<rparr>
                         in Inr (RuptureApplied fact_text, data(target_user_id \<mapsto> char))))))))"

text \<open>
  \<^verbatim>\<open>EditarFatoModal.on_submit\<close>; \<open>novo_texto\<close> is the text typed into the modal of the fact
  at \<open>fact_index\<close>.
\<close>

definition EditarFatoModal_on_submit :: "int \<Rightarrow> string \<Rightarrow> int \<Rightarrow> int \<Rightarrow> string \<Rightarrow> string \<Rightarrow>
    (string \<rightharpoonup> legacy_character) \<Rightarrow> error + reply \<times> (string \<rightharpoonup> legacy_character)" where
  "EditarFatoModal_on_submit requester_id target_user_id fact_index who novo_texto now data =
     (if who \<noteq> requester_id then Inr (NotYours, data)
      else
        (let new_text = strip novo_texto in
         if new_text = [] then Inr (EmptyFact, data)
         else
           (case data target_user_id of
              None \<Rightarrow> Inr (SheetNotFound, data)
            | Some char \<Rightarrow>
                (case set_fact_by_index (ensure_char_defaults char) fact_index new_text of
                   Inl e \<Rightarrow> Inl e
                 | Inr (None, char) \<Rightarrow> Inr (FactNotFound, data)
                 | Inr (Some old_text, char) \<Rightarrow>
                     (let ruptured = ruptured_facts char;
                          char = (if old_text \<in> set ruptured
                                  then char\<lparr>ruptured_facts :=
                                         map (\<lambda>x. if x = old_text then new_text else x) ruptured\<rparr>
                                  else char);
                          char = char\<lparr>updated_at := now\<rparr>
                      in Inr (FactEdited old_text new_text, data(target_user_id \<mapsto> char)))))))"

text \<open>
  \<^verbatim>\<open>personagem_criar\<close> of main.py. \<open>typed\<close> are the user's direct messages in order,
  \<open>None\<close> marking the point where the wait times out. \<open>ask_dm\<close> ignores the messages
  that are blank after stripping, which its \<^verbatim>\<open>check\<close> rejects, returns the stripped content
  of the first other one, and raises \<^verbatim>\<open>TimeoutError\<close> (\<open>None\<close>) when none comes in time.
  The document is loaded after the seven answers.
\<close>

fun ask_dm :: "string option list \<Rightarrow> (string \<times> string option list) option" where
  "ask_dm [] = None"
| "ask_dm (None # later) = None"
| "ask_dm (Some m # later) = (if strip m \<noteq> [] then Some (strip m, later) else ask_dm later)"

definition personagem_criar :: "bool \<Rightarrow> int \<Rightarrow> string option list \<Rightarrow> string \<Rightarrow>
    (string \<rightharpoonup> legacy_character) \<Rightarrow> reply \<times> (string \<rightharpoonup> legacy_character)" where
  "personagem_criar busy user typed now data =
     (if busy then (WizardOpen, data)
      else
        (case ask_dm typed of None \<Rightarrow> (TimedOut, data) | Some (nm, typed) \<Rightarrow>
         (case ask_dm typed of None \<Rightarrow> (TimedOut, data) | Some (past1, typed) \<Rightarrow>
          (case ask_dm typed of None \<Rightarrow> (TimedOut, data) | Some (past2, typed) \<Rightarrow>
           (case ask_dm typed of None \<Rightarrow> (TimedOut, data) | Some (pres1, typed) \<Rightarrow>
            (case ask_dm typed of None \<Rightarrow> (TimedOut, data) | Some (pres2, typed) \<Rightarrow>
             (case ask_dm typed of None \<Rightarrow> (TimedOut, data) | Some (fut1, typed) \<Rightarrow>
              (case ask_dm typed of None \<Rightarrow> (TimedOut, data) | Some (flw, typed) \<Rightarrow>
                 (let uid = py_str user;
                      char = ensure_char_defaults
                        \<lparr>name = nm,
                         facts = \<lparr>past = [past1, past2], present = [pres1, pres2], future = [fut1]\<rparr>,
                         ruptured_facts = [],
                         xp = 0,
                         created_at = (case data uid of None \<Rightarrow> now | Some prior \<Rightarrow> created_at prior),
                         updated_at = now,
                         user_id = uid,
                         flaw = flw,
                         condition = \<lparr>current = DEFAULT_CONDITION_MAX, maxv = DEFAULT_CONDITION_MAX\<rparr>\<rparr>
                  in (SheetSaved, data(uid \<mapsto> char)))))))))))"


section \<open>Sample sheets\<close>

text \<open>A sheet with the facts A, B (past) and C (present), none ruptured.\<close>

definition sheet_ABC :: sheet where
  "sheet_ABC =
     \<lparr>name = ''Ayla'',
      facts = \<lparr>past = [''A'', ''B''], present = [''C''], future = []\<rparr>,
      ruptured_facts = [], xp = 0,
      created_at = ''2024-01-01T00:00:00+00:00'', updated_at = ''2024-01-01T00:00:00+00:00''\<rparr>"

text \<open>A sheet of main.py whose single fact A is ruptured, owned by user 7.\<close>

definition legacy_A :: legacy_character where
  "legacy_A =
     \<lparr>name = ''Ayla'',
      facts = \<lparr>past = [''A''], present = [], future = []\<rparr>,
      ruptured_facts = [''A''], xp = 0,
      created_at = ''2024-01-01T00:00:00+00:00'', updated_at = ''2024-01-01T00:00:00+00:00'',
      user_id = ''7'', flaw = ''medo'',
      condition = \<lparr>current = 3, maxv = 3\<rparr>\<rparr>"

text \<open>User 7 invoking a command of main.py in a guild, without the master role.\<close>

definition player :: command_ctx where
  "player = \<lparr>in_guild = True, invoker = 7, invoker_is_master = False\<rparr>"

text \<open>A sheet of rpg_core.py with one fact and 2 XP, owned by user 7.\<close>

definition hero :: character where
  "hero = (make_new_character_schema 7 ''2024-01-01T00:00:00+00:00'' ''2024-01-01T00:00:00+00:00'')
            \<lparr>name := ''Ayla'', facts := \<lparr>past = [''A''], present = [], future = []\<rparr>, xp := 2\<rparr>"

text \<open>A sheet with 26 past facts.\<close>

definition crowded :: sheet where
  "crowded =
     \<lparr>name = ''Ayla'',
      facts = \<lparr>past = replicate 26 ''A'', present = [], future = []\<rparr>,
      ruptured_facts = [], xp = 0,
      created_at = ''2024-01-01T00:00:00+00:00'', updated_at = ''2024-01-01T00:00:00+00:00''\<rparr>"

text \<open>A sheet with a blank past fact at index 1 and the fact B ruptured.\<close>

definition blanks :: sheet where
  "blanks =
     \<lparr>name = ''Ayla'',
      facts = \<lparr>past = [''A'', [], ''B''], present = [''C''], future = []\<rparr>,
      ruptured_facts = [''B''], xp = 0,
      created_at = ''2024-01-01T00:00:00+00:00'', updated_at = ''2024-01-01T00:00:00+00:00''\<rparr>"

text \<open>The sheet with the facts A, B, C where B is ruptured.\<close>

definition sheet_B_ruptured :: sheet where
  "sheet_B_ruptured = sheet_ABC\<lparr>ruptured_facts := [''B'']\<rparr>"

text \<open>A sheet of main.py with the facts A (ruptured) and B.\<close>

definition legacy_AB :: legacy_character where
  "legacy_AB = legacy_A\<lparr>facts := \<lparr>past = [''A'', ''B''], present = [], future = []\<rparr>\<rparr>"

text \<open>A sheet of rpg_core.py with spent reserves.\<close>

definition wounded :: character where
  "wounded = hero\<lparr>reserves := \<lparr>pv = \<lparr>current = 1, maxv = 4\<rparr>,
                                  pm = \<lparr>current = 0, maxv = 5\<rparr>,
                                  destiny = \<lparr>current = 1, maxv = 2\<rparr>\<rparr>\<rparr>"

text \<open>The answers of a user who completes the wizard of rpg_core.py.\<close>

definition wizard_messages :: "string option list" where
  "wizard_messages =
     [Some ''Ayla'', Some ''p1'', Some ''p2'', Some ''p3'', Some ''q1'', Some ''q2'', Some ''q3'',
      Some ''f1'', Some ''medo'']"


section \<open>The global index\<close>

lemma index_bucket_eq:
  "index_bucket k fs (out, idx) =
     (out @ map (\<lambda>(j, f). (k, f, j)) (enumerate idx fs), idx + length fs)"
  by (induction fs arbitrary: out idx) auto

lemma all_facts_with_index_eq:
  "all_facts_with_index c =
     map (\<lambda>(j, f). (Past, f, j)) (enumerate 0 (past (facts c))) @
     map (\<lambda>(j, f). (Present, f, j)) (enumerate (length (past (facts c))) (present (facts c))) @
     map (\<lambda>(j, f). (Future, f, j))
       (enumerate (length (past (facts c)) + length (present (facts c))) (future (facts c)))"
  by (simp add: all_facts_with_index_def kinds_def index_bucket_eq)

lemma texts_all_facts: "map (\<lambda>(k, f, j). f) (all_facts_with_index c) = flatten_facts c"
  by (simp add: all_facts_with_index_eq flatten_facts_def enumerate_eq_zip map_zip_map2 comp_def
        case_prod_unfold)

lemma length_all_facts: "length (all_facts_with_index c) = total_facts (facts c)"
  by (simp add: all_facts_with_index_eq total_facts_def)

lemma length_flatten: "length (flatten_facts c) = total_facts (facts c)"
  by (simp add: flatten_facts_def total_facts_def)

lemma indices_all_facts:
  "map (\<lambda>(k, f, j). j) (all_facts_with_index c) = [0..<total_facts (facts c)]"
proof -
  have e: "\<And>k n xs. map (\<lambda>(k', f, j). j)
      (map (\<lambda>(j, f). (k :: kind, f :: string, j :: nat)) (enumerate n xs)) = [n..<n + length xs]"
    by (simp add: comp_def case_prod_unfold flip: map_fst_enumerate)
  show ?thesis
    unfolding all_facts_with_index_eq total_facts_def map_append e
    using upt_add_eq_append[of 0 "length (past (facts c))" "length (present (facts c))"]
      upt_add_eq_append[of 0 "length (past (facts c)) + length (present (facts c))"
        "length (future (facts c))"]
    by simp
qed

lemma nth_all_facts:
  assumes "j < total_facts (facts c)"
  shows "\<exists>k. all_facts_with_index c ! j = (k, flatten_facts c ! j, j)"
proof -
  have l: "j < length (all_facts_with_index c)" using assms by (simp add: length_all_facts)
  obtain k f g where e: "all_facts_with_index c ! j = (k, f, g)"
    by (cases "all_facts_with_index c ! j")
  have "map (\<lambda>(k, f, j). f) (all_facts_with_index c) ! j = f" using l e by simp
  then have f: "f = flatten_facts c ! j" by (simp add: texts_all_facts)
  have "map (\<lambda>(k, f, j). j) (all_facts_with_index c) ! j = g" using l e by simp
  then have g: "g = j" using assms by (simp add: indices_all_facts)
  show ?thesis using e f g by simp
qed

lemma getitem_valid: "0 \<le> i \<Longrightarrow> i < int (length xs) \<Longrightarrow> getitem xs i = Inr (xs ! nat i)"
  by (simp add: getitem_def subscript_def)

lemma setitem_valid: "0 \<le> i \<Longrightarrow> i < int (length xs) \<Longrightarrow> setitem xs i v = Inr (xs[nat i := v])"
  by (simp add: setitem_def subscript_def)

lemma fact_text_at_valid:
  assumes "0 \<le> i" "i < int (total_facts (facts c))"
  shows "fact_text_at c i = Inr (flatten_facts c ! nat i)"
proof -
  have j: "nat i < total_facts (facts c)" using assms by simp
  obtain k where "all_facts_with_index c ! nat i = (k, flatten_facts c ! nat i, nat i)"
    using nth_all_facts[OF j] by blast
  then show ?thesis using assms
    by (simp add: fact_text_at_def getitem_def subscript_def length_all_facts)
qed

section \<open>Replacing a fact by its global index\<close>

lemma set_loop_past:
  assumes "0 \<le> i" "i < int (length (past fs))"
  shows "set_fact_loop kinds 0 fs i t = Inr (Some (past fs ! nat i), fs\<lparr>past := (past fs)[nat i := t]\<rparr>)"
  using assms by (simp add: kinds_def Let_def getitem_valid setitem_valid)

lemma set_loop_present:
  assumes "int (length (past fs)) \<le> i" "i < int (length (past fs)) + int (length (present fs))"
  shows "set_fact_loop kinds 0 fs i t =
     Inr (Some (present fs ! (nat i - length (past fs))),
          fs\<lparr>present := (present fs)[nat i - length (past fs) := t]\<rparr>)"
proof -
  let ?l = "i - int (length (past fs))"
  have "0 \<le> ?l" "?l < int (length (present fs))" "nat ?l = nat i - length (past fs)"
    using assms by auto
  then have "getitem (present fs) ?l = Inr (present fs ! (nat i - length (past fs)))"
    "setitem (present fs) ?l t = Inr ((present fs)[nat i - length (past fs) := t])"
    using getitem_valid[of ?l "present fs"] setitem_valid[of ?l "present fs" t] by simp_all
  then show ?thesis using assms by (simp add: kinds_def Let_def)
qed

lemma set_loop_future:
  assumes "int (length (past fs)) + int (length (present fs)) \<le> i"
    "i < int (length (past fs)) + int (length (present fs)) + int (length (future fs))"
  shows "set_fact_loop kinds 0 fs i t =
     Inr (Some (future fs ! (nat i - length (past fs) - length (present fs))),
          fs\<lparr>future := (future fs)[nat i - length (past fs) - length (present fs) := t]\<rparr>)"
proof -
  let ?l = "i - int (length (past fs) + length (present fs))"
  have "0 \<le> ?l" "?l < int (length (future fs))" "nat ?l = nat i - length (past fs) - length (present fs)"
    using assms by auto
  then have "getitem (future fs) ?l = Inr (future fs ! (nat i - length (past fs) - length (present fs)))"
    "setitem (future fs) ?l t = Inr ((future fs)[nat i - length (past fs) - length (present fs) := t])"
    using getitem_valid[of ?l "future fs"] setitem_valid[of ?l "future fs" t] by simp_all
  then show ?thesis using assms by (simp add: kinds_def Let_def)
qed

lemma set_loop_beyond:
  assumes "int (length (past fs)) + int (length (present fs)) + int (length (future fs)) \<le> i"
  shows "set_fact_loop kinds 0 fs i t = Inr (None, fs)"
  using assms by (simp add: kinds_def Let_def)

lemma set_loop_valid:
  assumes "0 \<le> i" "i < int (total_facts fs)"
  shows "\<exists>fs'. set_fact_loop kinds 0 fs i t = Inr (Some ((past fs @ present fs @ future fs) ! nat i), fs')
     \<and> length (past fs') = length (past fs)
     \<and> length (present fs') = length (present fs)
     \<and> length (future fs') = length (future fs)
     \<and> past fs' @ present fs' @ future fs' = (past fs @ present fs @ future fs)[nat i := t]"
proof -
  let ?p = "past fs" and ?q = "present fs" and ?r = "future fs"
  consider (a) "i < int (length ?p)"
    | (b) "int (length ?p) \<le> i" "i < int (length ?p) + int (length ?q)"
    | (c) "int (length ?p) + int (length ?q) \<le> i" "i < int (length ?p) + int (length ?q) + int (length ?r)"
    using assms unfolding total_facts_def by linarith
  then show ?thesis
  proof cases
    case a
    then have "nat i < length ?p" using assms by simp
    then show ?thesis using set_loop_past[OF assms(1) a, of t]
      by (simp add: nth_append list_update_append)
  next
    case b
    then have "\<not> nat i < length ?p" "nat i - length ?p < length ?q" by auto
    then show ?thesis using set_loop_present[OF b, of t]
      by (simp add: nth_append list_update_append)
  next
    case c
    then have "\<not> nat i < length ?p" "\<not> nat i - length ?p < length ?q" by auto
    then show ?thesis using set_loop_future[OF c, of t]
      by (simp add: nth_append list_update_append)
  qed
qed

lemma set_fact_valid:
  assumes "0 \<le> i" "i < int (total_facts (facts c))"
  shows "\<exists>c'. set_fact_by_global_index c i t = Inr (Some (flatten_facts c ! nat i), c')
     \<and> total_facts (facts c') = total_facts (facts c)
     \<and> flatten_facts c' = (flatten_facts c)[nat i := t]
     \<and> ruptured_facts c' = ruptured_facts c \<and> xp c' = xp c \<and> sheet.more c' = sheet.more c"
proof -
  obtain fs' where l: "set_fact_loop kinds 0 (facts c) i t =
      Inr (Some ((past (facts c) @ present (facts c) @ future (facts c)) ! nat i), fs')"
    "length (past fs') = length (past (facts c))"
    "length (present fs') = length (present (facts c))"
    "length (future fs') = length (future (facts c))"
    "past fs' @ present fs' @ future fs' = (past (facts c) @ present (facts c) @ future (facts c))[nat i := t]"
    using set_loop_valid[OF assms, of t] by blast
  show ?thesis
    using l by (simp add: set_fact_by_global_index_def flatten_facts_def total_facts_def)
qed

text \<open>
  Claim C4. At a valid global index \<open>i\<close> (\<open>0 \<le> i\<close>, below the total number of facts)
  \<^verbatim>\<open>_set_fact_by_global_index(char, i, t)\<close> returns the text that was at \<open>i\<close>; reading
  index \<open>i\<close> afterwards yields \<open>t\<close>, and reading any other valid index yields what it
  yielded before.
\<close>

theorem set_fact_then_read:
  assumes "0 \<le> i" and "i < int (total_facts (facts c))"
  shows "\<exists>old c'. fact_text_at c i = Inr old
     \<and> set_fact_by_global_index c i t = Inr (Some old, c')
     \<and> fact_text_at c' i = Inr t
     \<and> (\<forall>j. 0 \<le> j \<and> j < int (total_facts (facts c)) \<and> j \<noteq> i \<longrightarrow>
            fact_text_at c' j = fact_text_at c j)"
proof -
  obtain c' where s: "set_fact_by_global_index c i t = Inr (Some (flatten_facts c ! nat i), c')"
    and n: "total_facts (facts c') = total_facts (facts c)"
    and f: "flatten_facts c' = (flatten_facts c)[nat i := t]"
    using set_fact_valid[OF assms, of t] by blast
  have lt: "nat i < length (flatten_facts c)" using assms by (simp add: length_flatten)
  have a: "fact_text_at c' i = Inr t"
    using fact_text_at_valid[of i c'] assms n f lt by simp
  have b: "fact_text_at c' j = fact_text_at c j"
    if "0 \<le> j \<and> j < int (total_facts (facts c)) \<and> j \<noteq> i" for j
  proof -
    have "nat j \<noteq> nat i" using that assms by auto
    then show ?thesis
      using fact_text_at_valid[of j c'] fact_text_at_valid[of j c] that n f by simp
  qed
  show ?thesis using fact_text_at_valid[OF assms] s a b by blast
qed

text \<open>
  The scenario of the specification: past A, B, present C, no future fact; setting index 2
  to C2 returns C and leaves the present list as the single fact C2.
\<close>

theorem set_fact_then_read_witness:
  "(0::int) \<le> 2 \<and> 2 < int (total_facts (facts sheet_ABC))
   \<and> set_fact_by_global_index sheet_ABC 2 ''C2'' =
       Inr (Some ''C'', sheet_ABC\<lparr>facts := \<lparr>past = [''A'', ''B''], present = [''C2''], future = []\<rparr>\<rparr>)
   \<and> (\<exists>old c'. fact_text_at sheet_ABC 2 = Inr old
        \<and> set_fact_by_global_index sheet_ABC 2 ''C2'' = Inr (Some old, c')
        \<and> fact_text_at c' 2 = Inr ''C2''
        \<and> fact_text_at c' 0 = fact_text_at sheet_ABC 0)"
proof -
  have h: "(0::int) \<le> 2" "2 < int (total_facts (facts sheet_ABC))"
    by (simp_all add: total_facts_def sheet_ABC_def)
  have e: "set_fact_by_global_index sheet_ABC 2 ''C2'' =
       Inr (Some ''C'', sheet_ABC\<lparr>facts := \<lparr>past = [''A'', ''B''], present = [''C2''], future = []\<rparr>\<rparr>)"
    by (simp add: set_fact_by_global_index_def kinds_def sheet_ABC_def Let_def getitem_def
          setitem_def subscript_def)
  have j: "(0::int) \<le> 0 \<and> 0 < int (total_facts (facts sheet_ABC)) \<and> (0::int) \<noteq> 2"
    by (simp add: total_facts_def sheet_ABC_def)
  from set_fact_then_read[OF h, of "''C2''"] j have
    "\<exists>old c'. fact_text_at sheet_ABC 2 = Inr old
        \<and> set_fact_by_global_index sheet_ABC 2 ''C2'' = Inr (Some old, c')
        \<and> fact_text_at c' 2 = Inr ''C2''
        \<and> fact_text_at c' 0 = fact_text_at sheet_ABC 0"
    by blast
  then show ?thesis using h e by blast
qed

section \<open>Indices out of range\<close>

lemma py_str_7: "py_str 7 = ''7''"
  by code_simp

text \<open>
  \<^verbatim>\<open>main.set_fact_by_index\<close> tests both bounds first: a negative index and an index at or
  beyond the number of facts return \<open>None\<close> and leave the sheet as it was.
\<close>

lemma set_fact_by_index_out_of_range:
  assumes "i < 0 \<or> int (total_facts (facts c)) \<le> i"
  shows "set_fact_by_index c i t = Inr (None, c)"
  using assms by (auto simp: set_fact_by_index_def total_facts_def Let_def)

text \<open>
  \<^verbatim>\<open>rpg_core._set_fact_by_global_index\<close> only tests the upper bound. An index at or beyond
  the number of facts returns \<open>None\<close>; a negative index passes the test of the first
  bucket, where the subscript counts from the end of the past list or raises.
\<close>

lemma set_fact_by_global_index_beyond:
  assumes "int (total_facts (facts c)) \<le> i"
  shows "set_fact_by_global_index c i t = Inr (None, c)"
  using assms set_loop_beyond[of "facts c" i t]
  by (simp add: set_fact_by_global_index_def total_facts_def)

lemma set_fact_negative_wraps:
  assumes "i < 0" "- int (length (past (facts c))) \<le> i"
  shows "set_fact_by_global_index c i t =
     Inr (Some (past (facts c) ! nat (int (length (past (facts c))) + i)),
          c\<lparr>facts := (facts c)\<lparr>past := (past (facts c))[nat (int (length (past (facts c))) + i) := t]\<rparr>\<rparr>)"
  using assms
  by (simp add: set_fact_by_global_index_def kinds_def Let_def getitem_def setitem_def subscript_def)

lemma set_fact_negative_raises:
  assumes "i < - int (length (past (facts c)))"
  shows "set_fact_by_global_index c i t = Inl IndexError"
  using assms
  by (simp add: set_fact_by_global_index_def kinds_def Let_def getitem_def setitem_def subscript_def)

text \<open>
  Claim C2 asks that a negative index is refused with no old text and no change. On the
  sheet with past A, B and present C, \<^verbatim>\<open>_set_fact_by_global_index(char, -1, "X")\<close> returns
  the old text B and overwrites the last past fact.
\<close>

theorem set_fact_negative_index:
  "set_fact_by_global_index sheet_ABC (- 1) ''X'' =
     Inr (Some ''B'', sheet_ABC\<lparr>facts := \<lparr>past = [''A'', ''X''], present = [''C''], future = []\<rparr>\<rparr>)"
  by (simp add: set_fact_by_global_index_def kinds_def sheet_ABC_def Let_def getitem_def
        setitem_def subscript_def)


section \<open>Adjusting XP\<close>

text \<open>\<^verbatim>\<open>rpg_core.xp_adjust\<close> stores \<open>max 0 (xp + delta)\<close>, which is never negative.\<close>

lemma xp_adjust_clamps:
  assumes "data (py_str owner) = Some char"
  shows "\<exists>char'. xp_adjust owner delta now data =
        ((True, XpNow (max 0 (xp char + delta))), data(py_str owner \<mapsto> char'))
     \<and> xp char' = max 0 (xp char + delta) \<and> 0 \<le> xp char'"
  using assms
  by (intro exI[of _ "char\<lparr>xp := max 0 (xp char + delta), updated_at := now\<rparr>"])
     (simp add: xp_adjust_def Let_def)

text \<open>
  Claim C3 asks that the direct adjustment stores \<open>max 0 (xp + delta)\<close>. The command
  \<^verbatim>\<open>personagem_xp\<close> of main.py adds the delta with no lower bound: from 0 XP, a delta of
  -1 stores -1.
\<close>

theorem personagem_xp_below_zero:
  "personagem_xp player (- 1) None ''2024-02-02T00:00:00+00:00'' [''7'' \<mapsto> legacy_A] =
     (XpIs (- 1),
      [''7'' \<mapsto> legacy_A\<lparr>xp := - 1, updated_at := ''2024-02-02T00:00:00+00:00''\<rparr>])"
  by (simp add: personagem_xp_def player_def target_of_def py_str_7 ensure_char_defaults_def
        legacy_A_def Let_def)

section \<open>The XP gate of the new-fact workflow\<close>

text \<open>With enough XP the flow of rpg_core.py does send its first prompt.\<close>

lemma add_fact_prompts_when_affordable:
  assumes "data (py_str uid) = Some char" "XP_COST_NEW_FACT \<le> xp char"
  shows "prompts (add_fact_with_xp uid picks typed now data) \<noteq> []"
  using assms
  by (simp add: add_fact_with_xp_def Let_def split: option.splits sum.splits)

text \<open>
  Claim C7. When the stored sheet has less XP than \<open>XP_COST_NEW_FACT\<close>,
  \<^verbatim>\<open>rpg_core.add_fact_with_xp\<close> returns the insufficient-XP failure, has sent no prompt and
  leaves the document as it was, whatever the user would have picked or typed. The command
  \<^verbatim>\<open>personagem_novo_fato\<close> of main.py sends no timeline menu and leaves the document as it
  was; where the command is allowed to run it answers that 3 XP are needed.
\<close>

theorem new_fact_needs_xp:
  "(data (py_str uid) = Some char \<and> xp char < XP_COST_NEW_FACT \<longrightarrow>
      add_fact_with_xp uid picks typed now data =
        \<lparr>result = Inr (False, InsufficientXP (xp char) XP_COST_NEW_FACT), prompts = [], store = data\<rparr>)
   \<and> (ldata (py_str (target_of ix usuario)) = Some lchar \<and> xp lchar < XP_COST_NEW_FACT \<longrightarrow>
        snd (personagem_novo_fato ix usuario ldata) = (None, ldata)
        \<and> (in_guild ix \<and> (usuario = None \<or> invoker_is_master ix) \<longrightarrow>
             fst (personagem_novo_fato ix usuario ldata) = NeedXp (xp lchar)))"
  by (auto simp: add_fact_with_xp_def personagem_novo_fato_def ensure_char_defaults_def Let_def)

text \<open>The scenario of the specification, a sheet with 2 XP, and a sheet of main.py with 0 XP.\<close>

theorem new_fact_needs_xp_witness:
  "[''7'' \<mapsto> hero] (py_str 7) = Some hero \<and> xp hero = 2 \<and> xp hero < XP_COST_NEW_FACT
   \<and> add_fact_with_xp 7 [\<lparr>actor = 7, choice = 0\<rparr>] (Some ''novo'') ''2024-02-02T00:00:00+00:00'' [''7'' \<mapsto> hero] =
        \<lparr>result = Inr (False, InsufficientXP 2 3), prompts = [], store = [''7'' \<mapsto> hero]\<rparr>
   \<and> [''7'' \<mapsto> legacy_A] (py_str (target_of player None)) = Some legacy_A \<and> xp legacy_A < XP_COST_NEW_FACT
   \<and> personagem_novo_fato player None [''7'' \<mapsto> legacy_A] = (NeedXp 0, None, [''7'' \<mapsto> legacy_A])"
proof -
  have a: "[''7'' \<mapsto> hero] (py_str 7) = Some hero \<and> xp hero < XP_COST_NEW_FACT" "xp hero = 2"
    by (simp_all add: py_str_7 hero_def XP_COST_NEW_FACT_def)
  have b: "[''7'' \<mapsto> legacy_A] (py_str (target_of player None)) = Some legacy_A \<and> xp legacy_A < XP_COST_NEW_FACT"
    "xp legacy_A = 0" "in_guild player \<and> ((None :: int option) = None \<or> invoker_is_master player)"
    by (simp_all add: py_str_7 target_of_def player_def legacy_A_def XP_COST_NEW_FACT_def)
  note t = new_fact_needs_xp[of "[''7'' \<mapsto> hero]" 7 hero "[\<lparr>actor = 7, choice = 0\<rparr>]" "Some ''novo''"
      "''2024-02-02T00:00:00+00:00''" "[''7'' \<mapsto> legacy_A]" player None legacy_A]
  have c: "add_fact_with_xp 7 [\<lparr>actor = 7, choice = 0\<rparr>] (Some ''novo'') ''2024-02-02T00:00:00+00:00'' [''7'' \<mapsto> hero] =
        \<lparr>result = Inr (False, InsufficientXP 2 3), prompts = [], store = [''7'' \<mapsto> hero]\<rparr>"
    using t a by (simp add: XP_COST_NEW_FACT_def)
  have d: "personagem_novo_fato player None [''7'' \<mapsto> legacy_A] = (NeedXp 0, None, [''7'' \<mapsto> legacy_A])"
    using t b by (simp add: prod_eq_iff)
  show ?thesis using a b c d by simp
qed

section \<open>Integers and their decimal strings\<close>

lemma isdigit_digit_char: "d < 10 \<Longrightarrow> isdigit (digit_char d)"
  by (simp add: isdigit_def digit_char_def)

lemma digit_val_digit_char: "d < 10 \<Longrightarrow> digit_val (digit_char d) = d"
  by (simp add: digit_val_def digit_char_def)

lemma not_int_space_digit: "isdigit c \<Longrightarrow> \<not> int_space c"
  by (auto simp: isdigit_def int_space_def)

lemma str_nat_digits: "c \<in> set (str_nat n) \<Longrightarrow> isdigit c"
proof (induction n arbitrary: c rule: str_nat.induct)
  case (1 n)
  show ?case
  proof (cases "n < 10")
    case True
    with "1.prems" show ?thesis by (simp add: str_nat.simps[of n] isdigit_digit_char)
  next
    case False
    with "1.prems" "1.IH" show ?thesis
      by (auto simp: str_nat.simps[of n] isdigit_digit_char)
  qed
qed

lemma str_nat_not_Nil: "str_nat n \<noteq> []"
  by (subst str_nat.simps) simp

lemma parse_digits_all:
  "\<forall>c \<in> set ds. isdigit c \<Longrightarrow>
     parse_digits acc ds = Some (foldl (\<lambda>a c. 10 * a + digit_val c) acc ds)"
  by (induction acc ds rule: parse_digits.induct) auto

lemma parse_number_all:
  assumes "ds \<noteq> []" "\<forall>c \<in> set ds. isdigit c"
  shows "parse_number ds = Some (foldl (\<lambda>a c. 10 * a + digit_val c) 0 ds)"
  using assms by (cases ds) (simp_all add: parse_number_def parse_digits_all)

lemma value_str_nat: "foldl (\<lambda>a c. 10 * a + digit_val c) 0 (str_nat n) = n"
proof (induction n rule: str_nat.induct)
  case (1 n)
  show ?case
  proof (cases "n < 10")
    case True
    then show ?thesis by (simp add: str_nat.simps[of n] digit_val_digit_char)
  next
    case False
    with "1.IH" show ?thesis
      by (simp add: str_nat.simps[of n] digit_val_digit_char)
  qed
qed

lemma strip_by_keeps_head:
  assumes "\<not> blank c"
  shows "\<exists>cs'. strip_by blank (c # cs) = c # cs'"
  using assms by (simp add: strip_by_def dropWhile_append3)

lemma strip_by_nothing:
  assumes "\<forall>c \<in> set s. \<not> blank c"
  shows "strip_by blank s = s"
proof -
  have "dropWhile blank s = s" using assms by (cases s) simp_all
  moreover have "dropWhile blank (rev s) = rev s"
  proof (cases "rev s")
    case Nil
    then show ?thesis by simp
  next
    case (Cons a l)
    then have "a \<in> set s" by (metis list.set_intros(1) set_rev)
    then show ?thesis using assms Cons by simp
  qed
  ultimately show ?thesis by (simp add: strip_by_def)
qed

text \<open>\<^verbatim>\<open>int(str(p))\<close> is \<open>p\<close> for every index \<open>p\<close>.\<close>

lemma py_int_py_str: "py_int (py_str (int p)) = Inr (int p)"
proof -
  let ?s = "str_nat p"
  have d: "\<forall>c \<in> set ?s. isdigit c" using str_nat_digits by blast
  then have s: "strip_by int_space ?s = ?s" using strip_by_nothing not_int_space_digit by blast
  obtain c cs where e: "?s = c # cs" using str_nat_not_Nil by (cases ?s) auto
  have "isdigit c" using d e by simp
  then have n: "c \<noteq> CHR ''-''" "c \<noteq> CHR ''+''" by (auto simp: isdigit_def)
  have "parse_number ?s = Some p"
    using parse_number_all[OF str_nat_not_Nil d] by (simp add: value_str_nat)
  then show ?thesis using s e n by (simp add: py_int_def py_str_def)
qed

text \<open>A label starts with the timeline name, so \<^verbatim>\<open>int(label)\<close> raises for every label.\<close>

lemma py_int_option_label: "py_int (option_label k f) = Inl ValueError"
proof -
  obtain c cs where e: "option_label k f = c # cs" "c = CHR ''P'' \<or> c = CHR ''F''"
    by (cases k) (simp_all add: option_label_def)
  then have "\<not> int_space c" by (auto simp: int_space_def)
  then obtain cs' where "strip_by int_space (option_label k f) = c # cs'"
    using strip_by_keeps_head e by metis
  moreover have "\<not> isdigit c" "c \<noteq> CHR ''-''" "c \<noteq> CHR ''+''" using e by (auto simp: isdigit_def)
  ultimately show ?thesis by (simp add: py_int_def parse_number_def)
qed


section \<open>What the menu of rpg_core.py resolves with\<close>

lemma select_wait_value:
  "select_wait uid menu picks = Some v \<Longrightarrow> v \<in> opt_value ` set menu"
  by (induction picks) (auto simp: values0_def split: if_splits)

lemma select_options_values: "opt_value ` set (select_options xs) = fst ` set (take 25 xs)"
  by (force simp: select_options_def case_prod_unfold)

lemma options_all_facts_labels:
  "lbl \<in> fst ` set (options_all_facts c) \<Longrightarrow> \<exists>k f. lbl = option_label k f"
proof -
  assume "lbl \<in> fst ` set (options_all_facts c)"
  then obtain k f where "lbl = option_label k f" by (auto simp: options_all_facts_def)
  then show ?thesis by blast
qed

lemma options_non_ruptured_labels:
  "lbl \<in> fst ` set (options_non_ruptured_facts c) \<Longrightarrow> \<exists>k f. lbl = option_label k f"
proof -
  assume "lbl \<in> fst ` set (options_non_ruptured_facts c)"
  then obtain k f where "lbl = option_label k f" by (auto simp: options_non_ruptured_facts_def)
  then show ?thesis by blast
qed

text \<open>
  Whatever is picked, \<^verbatim>\<open>dm_select_one\<close> resolves with a first component of the pairs it
  was given: the label, never the second component.
\<close>

lemma dm_select_one_label:
  assumes "dm_select_one uid xs picks = Some v"
  shows "v \<in> fst ` set xs"
  using select_wait_value[of uid "select_options xs" picks v] assms
    select_options_values[of xs] set_take_subset[of 25 xs]
  by (auto simp: dm_select_one_def)

lemma dm_select_one_owner_pick:
  assumes "k < length xs" "k < 25"
  shows "dm_select_one uid xs (\<lparr>actor = uid, choice = k\<rparr> # later) = Some (fst (xs ! k))"
  using assms by (simp add: dm_select_one_def values0_def select_options_def case_prod_unfold)

text \<open>
  The edit and the rupture flow pass \<open>(label, index token)\<close> pairs and then read the
  answer with \<^verbatim>\<open>int(chosen)\<close>. Every pick of the owner therefore ends in \<^verbatim>\<open>ValueError\<close>;
  neither flow ever stores anything.
\<close>

lemma edit_fact_flow_never_succeeds:
  "store (edit_fact_flow uid picks typed now data) = data
   \<and> result (edit_fact_flow uid picks typed now data) \<in>
       {Inr (False, NoSheet), Inr (False, NoFactsToEdit), Inr (False, Cancelled), Inl ValueError}"
proof (cases "data (py_str uid)")
  case None
  then show ?thesis by (simp add: edit_fact_flow_def)
next
  case (Some char)
  show ?thesis
  proof (cases "dm_select_one uid (options_all_facts char) picks")
    case None
    show ?thesis
      unfolding edit_fact_flow_def Let_def using None Some by simp
  next
    case pick: (Some v)
    have "v \<in> fst ` set (options_all_facts char)" using dm_select_one_label[OF pick] .
    from options_all_facts_labels[OF this] obtain k f where "v = option_label k f" by blast
    then have "py_int v = Inl ValueError" by (simp add: py_int_option_label)
    then show ?thesis
      unfolding edit_fact_flow_def Let_def using pick Some by simp
  qed
qed

lemma rupture_fact_flow_never_succeeds:
  "store (rupture_fact_flow uid picks now data) = data
   \<and> result (rupture_fact_flow uid picks now data) \<in>
       {Inr (False, NoSheet), Inr (False, NoFactsToRupture), Inr (False, Cancelled), Inl ValueError}"
proof (cases "data (py_str uid)")
  case None
  then show ?thesis by (simp add: rupture_fact_flow_def)
next
  case (Some char)
  show ?thesis
  proof (cases "dm_select_one uid (options_non_ruptured_facts char) picks")
    case None
    show ?thesis
      unfolding rupture_fact_flow_def Let_def using None Some by simp
  next
    case pick: (Some v)
    have "v \<in> fst ` set (options_non_ruptured_facts char)" using dm_select_one_label[OF pick] .
    from options_non_ruptured_labels[OF this] obtain k f where "v = option_label k f" by blast
    then have "py_int v = Inl ValueError" by (simp add: py_int_option_label)
    then show ?thesis
      unfolding rupture_fact_flow_def Let_def using pick Some by simp
  qed
qed

lemma all_facts_hero: "all_facts_with_index hero = [(Past, ''A'', 0)]"
  by (simp add: all_facts_with_index_def kinds_def hero_def)

lemma py_str_0: "py_str 0 = ''0''"
  by code_simp

text \<open>
  Claim C1 asks that the prompt of the edit workflow resolves with the index token of the
  picked option. For the sheet with the single fact A the only option is the pair
  (Passado: A, 0); when the owner picks it the prompt resolves with the label
  Passado: A, and the flow raises \<^verbatim>\<open>ValueError\<close> at \<^verbatim>\<open>int(chosen)\<close> without editing.
\<close>

theorem edit_fact_flow_pick_raises:
  "options_all_facts hero = [(''Passado: A'', ''0'')]
   \<and> dm_select_one 7 (options_all_facts hero) [\<lparr>actor = 7, choice = 0\<rparr>] = Some ''Passado: A''
   \<and> edit_fact_flow 7 [\<lparr>actor = 7, choice = 0\<rparr>] (Some ''A2'') ''2024-02-02T00:00:00+00:00'' [''7'' \<mapsto> hero] =
       \<lparr>result = Inl ValueError,
        prompts = [Menu [\<lparr>label = ''Passado: A'', description = Some ''0'', opt_value = ''Passado: A''\<rparr>]],
        store = [''7'' \<mapsto> hero]\<rparr>"
proof -
  have o: "options_all_facts hero = [(''Passado: A'', ''0'')]"
    by (simp add: options_all_facts_def all_facts_hero option_label_def short_def py_str_0)
  have m: "select_options [(''Passado: A'', ''0'')] =
      [\<lparr>label = ''Passado: A'', description = Some ''0'', opt_value = ''Passado: A''\<rparr>]"
    by (simp add: select_options_def)
  have s: "dm_select_one 7 [(''Passado: A'', ''0'')] [\<lparr>actor = 7, choice = 0\<rparr>] = Some ''Passado: A''"
    by (simp add: dm_select_one_def m values0_def)
  have i: "py_int ''Passado: A'' = Inl ValueError"
    using py_int_option_label[of Past "''A''"] by (simp add: option_label_def short_def)
  show ?thesis
    using o s i by (simp add: edit_fact_flow_def py_str_7 Let_def m)
qed

section \<open>The option builders of main.py\<close>

text \<open>Each closure appends one entry per listed fact and counts every fact it passes.\<close>

lemma scan_eq:
  "scan kn arr (options, idx) =
     (options @ map (\<lambda>(j, f). (kn @ '': '' @ short f, py_str (int j)))
                  (filter (\<lambda>(j, f). f \<noteq> []) (enumerate idx arr)),
      idx + length arr)"
  by (induction arr arbitrary: options idx) (simp_all add: Let_def)

lemma scan_not_ruptured_eq:
  "scan_not_ruptured R kn arr (options, idx) =
     (options @ map (\<lambda>(j, f). (kn @ '': '' @ short f, py_str (int j)))
                  (filter (\<lambda>(j, f). f \<noteq> [] \<and> f \<notin> R) (enumerate idx arr)),
      idx + length arr)"
  by (induction arr arbitrary: options idx) (simp_all add: Let_def)

lemma enumerate_upt: "enumerate n xs = map (\<lambda>p. (p, xs ! (p - n))) [n..<n + length xs]"
proof (rule nth_equalityI)
  show "length (enumerate n xs) = length (map (\<lambda>p. (p, xs ! (p - n))) [n..<n + length xs])"
    by simp
next
  fix i
  assume "i < length (enumerate n xs)"
  then show "enumerate n xs ! i = map (\<lambda>p. (p, xs ! (p - n))) [n..<n + length xs] ! i"
    by (simp add: nth_enumerate_eq)
qed

lemma segment:
  assumes "\<And>p. n \<le> p \<Longrightarrow> p < n + length xs \<Longrightarrow> G p = h p (xs ! (p - n))"
    and "\<And>p. n \<le> p \<Longrightarrow> p < n + length xs \<Longrightarrow> Q p = Pf (xs ! (p - n))"
  shows "map (\<lambda>(j, f). h j f) (filter (\<lambda>(j, f). Pf f) (enumerate n xs)) =
         map G (filter Q [n..<n + length xs])"
proof -
  have "filter Q [n..<n + length xs] = filter (\<lambda>p. Pf (xs ! (p - n))) [n..<n + length xs]"
    using assms(2) by (intro filter_cong) auto
  moreover have "map G (filter (\<lambda>p. Pf (xs ! (p - n))) [n..<n + length xs]) =
      map (\<lambda>p. h p (xs ! (p - n))) (filter (\<lambda>p. Pf (xs ! (p - n))) [n..<n + length xs])"
    using assms(1) by (intro map_cong) auto
  ultimately show ?thesis
    by (simp add: enumerate_upt filter_map comp_def)
qed

lemma length_filter_enumerate:
  "length (filter (\<lambda>(j, f). Pf f) (enumerate n xs)) = length (filter Pf xs)"
  by (induction xs arbitrary: n) simp_all

lemma list_all_fact_options_eq:
  fixes c :: "'a sheet_scheme"
  defines "a \<equiv> length (past (facts c))" and "b \<equiv> length (present (facts c))"
  shows "list_all_fact_options c =
     map (\<lambda>p. ((if p < a then ''Passado'' else if p < a + b then ''Presente'' else ''Futuro'')
                 @ '': '' @ short (flatten_facts c ! p), py_str (int p)))
       (filter (\<lambda>p. flatten_facts c ! p \<noteq> []) [0..<length (flatten_facts c)])"
proof -
  let ?pa = "past (facts c)" and ?pr = "present (facts c)" and ?fu = "future (facts c)"
  let ?G = "\<lambda>p. ((if p < a then ''Passado'' else if p < a + b then ''Presente'' else ''Futuro'')
                 @ '': '' @ short (flatten_facts c ! p), py_str (int p))"
  let ?Q = "\<lambda>p. flatten_facts c ! p \<noteq> []"
  let ?h = "\<lambda>kn (j :: nat) f. (kn @ '': '' @ short f, py_str (int j))"
  have s1: "map (\<lambda>(j, f). ?h ''Passado'' j f) (filter (\<lambda>(j, f). f \<noteq> []) (enumerate 0 ?pa))
      = map ?G (filter ?Q [0..<0 + length ?pa])"
    by (rule segment) (simp_all add: a_def flatten_facts_def nth_append)
  have s2: "map (\<lambda>(j, f). ?h ''Presente'' j f) (filter (\<lambda>(j, f). f \<noteq> []) (enumerate a ?pr))
      = map ?G (filter ?Q [a..<a + length ?pr])"
    by (rule segment) (auto simp add: a_def b_def flatten_facts_def nth_append)
  have s3: "map (\<lambda>(j, f). ?h ''Futuro'' j f) (filter (\<lambda>(j, f). f \<noteq> []) (enumerate (a + b) ?fu))
      = map ?G (filter ?Q [a + b..<a + b + length ?fu])"
    by (rule segment) (auto simp add: a_def b_def flatten_facts_def nth_append)
  have u: "[0..<length (flatten_facts c)] = [0..<0 + length ?pa] @ [a..<a + length ?pr] @ [a + b..<a + b + length ?fu]"
    using upt_add_eq_append[of 0 a b] upt_add_eq_append[of 0 "a + b" "length ?fu"]
    by (simp add: flatten_facts_def a_def b_def add.assoc)
  have "list_all_fact_options c =
      map (\<lambda>(j, f). ?h ''Passado'' j f) (filter (\<lambda>(j, f). f \<noteq> []) (enumerate 0 ?pa)) @
      map (\<lambda>(j, f). ?h ''Presente'' j f) (filter (\<lambda>(j, f). f \<noteq> []) (enumerate a ?pr)) @
      map (\<lambda>(j, f). ?h ''Futuro'' j f) (filter (\<lambda>(j, f). f \<noteq> []) (enumerate (a + b) ?fu))"
    by (simp add: list_all_fact_options_def scan_eq a_def b_def)
  also have "\<dots> = map ?G (filter ?Q [0..<length (flatten_facts c)])"
    unfolding s1 s2 s3 u by simp
  finally show ?thesis .
qed

lemma list_fact_options_not_ruptured_eq:
  fixes c :: "'a sheet_scheme"
  defines "a \<equiv> length (past (facts c))" and "b \<equiv> length (present (facts c))"
  shows "list_fact_options_not_ruptured c =
     map (\<lambda>p. ((if p < a then ''Passado'' else if p < a + b then ''Presente'' else ''Futuro'')
                 @ '': '' @ short (flatten_facts c ! p), py_str (int p)))
       (filter (\<lambda>p. flatten_facts c ! p \<noteq> [] \<and> flatten_facts c ! p \<notin> set (ruptured_facts c))
          [0..<length (flatten_facts c)])"
proof -
  let ?pa = "past (facts c)" and ?pr = "present (facts c)" and ?fu = "future (facts c)"
  let ?R = "set (ruptured_facts c)"
  let ?G = "\<lambda>p. ((if p < a then ''Passado'' else if p < a + b then ''Presente'' else ''Futuro'')
                 @ '': '' @ short (flatten_facts c ! p), py_str (int p))"
  let ?Q = "\<lambda>p. flatten_facts c ! p \<noteq> [] \<and> flatten_facts c ! p \<notin> ?R"
  let ?h = "\<lambda>kn (j :: nat) f. (kn @ '': '' @ short f, py_str (int j))"
  have s1: "map (\<lambda>(j, f). ?h ''Passado'' j f) (filter (\<lambda>(j, f). f \<noteq> [] \<and> f \<notin> ?R) (enumerate 0 ?pa))
      = map ?G (filter ?Q [0..<0 + length ?pa])"
    by (rule segment) (simp_all add: a_def flatten_facts_def nth_append)
  have s2: "map (\<lambda>(j, f). ?h ''Presente'' j f) (filter (\<lambda>(j, f). f \<noteq> [] \<and> f \<notin> ?R) (enumerate a ?pr))
      = map ?G (filter ?Q [a..<a + length ?pr])"
    by (rule segment) (auto simp add: a_def b_def flatten_facts_def nth_append)
  have s3: "map (\<lambda>(j, f). ?h ''Futuro'' j f) (filter (\<lambda>(j, f). f \<noteq> [] \<and> f \<notin> ?R) (enumerate (a + b) ?fu))
      = map ?G (filter ?Q [a + b..<a + b + length ?fu])"
    by (rule segment) (auto simp add: a_def b_def flatten_facts_def nth_append)
  have u: "[0..<length (flatten_facts c)] = [0..<0 + length ?pa] @ [a..<a + length ?pr] @ [a + b..<a + b + length ?fu]"
    using upt_add_eq_append[of 0 a b] upt_add_eq_append[of 0 "a + b" "length ?fu"]
    by (simp add: flatten_facts_def a_def b_def add.assoc)
  have "list_fact_options_not_ruptured c =
      map (\<lambda>(j, f). ?h ''Passado'' j f) (filter (\<lambda>(j, f). f \<noteq> [] \<and> f \<notin> ?R) (enumerate 0 ?pa)) @
      map (\<lambda>(j, f). ?h ''Presente'' j f) (filter (\<lambda>(j, f). f \<noteq> [] \<and> f \<notin> ?R) (enumerate a ?pr)) @
      map (\<lambda>(j, f). ?h ''Futuro'' j f) (filter (\<lambda>(j, f). f \<noteq> [] \<and> f \<notin> ?R) (enumerate (a + b) ?fu))"
    by (simp add: list_fact_options_not_ruptured_def scan_not_ruptured_eq a_def b_def Let_def)
  also have "\<dots> = map ?G (filter ?Q [0..<length (flatten_facts c)])"
    unfolding s1 s2 s3 u by simp
  finally show ?thesis .
qed

lemma py_str_small: "py_str 0 = ''0''" "py_str 1 = ''1''" "py_str 2 = ''2''" "py_str 3 = ''3''"
  by code_simp+

text \<open>
  Claim C10. \<^verbatim>\<open>list_all_fact_options\<close> lists exactly the positions of the flattened
  sequence that hold a non-empty fact, in order, each with the label of the fact at that
  position and the position itself as token; \<^verbatim>\<open>list_fact_options_not_ruptured\<close> does the
  same for the non-empty facts that are not ruptured. A blank fact takes up its position
  without being listed, and the token read back with \<^verbatim>\<open>int\<close> is the position.
\<close>

theorem option_tokens_are_positions:
  "list_all_fact_options c =
     map (\<lambda>p. ((if p < length (past (facts c)) then ''Passado''
                  else if p < length (past (facts c)) + length (present (facts c)) then ''Presente''
                  else ''Futuro'') @ '': '' @ short (flatten_facts c ! p),
                 py_str (int p)))
       (filter (\<lambda>p. flatten_facts c ! p \<noteq> []) [0..<length (flatten_facts c)])
   \<and> list_fact_options_not_ruptured c =
     map (\<lambda>p. ((if p < length (past (facts c)) then ''Passado''
                  else if p < length (past (facts c)) + length (present (facts c)) then ''Presente''
                  else ''Futuro'') @ '': '' @ short (flatten_facts c ! p),
                 py_str (int p)))
       (filter (\<lambda>p. flatten_facts c ! p \<noteq> [] \<and> flatten_facts c ! p \<notin> set (ruptured_facts c))
          [0..<length (flatten_facts c)])
   \<and> (\<forall>p. py_int (py_str (int p)) = Inr (int p))"
proof (intro conjI allI)
  show "list_all_fact_options c =
     map (\<lambda>p. ((if p < length (past (facts c)) then ''Passado''
                  else if p < length (past (facts c)) + length (present (facts c)) then ''Presente''
                  else ''Futuro'') @ '': '' @ short (flatten_facts c ! p),
                 py_str (int p)))
       (filter (\<lambda>p. flatten_facts c ! p \<noteq> []) [0..<length (flatten_facts c)])"
    by (rule list_all_fact_options_eq)
  show "list_fact_options_not_ruptured c =
     map (\<lambda>p. ((if p < length (past (facts c)) then ''Passado''
                  else if p < length (past (facts c)) + length (present (facts c)) then ''Presente''
                  else ''Futuro'') @ '': '' @ short (flatten_facts c ! p),
                 py_str (int p)))
       (filter (\<lambda>p. flatten_facts c ! p \<noteq> [] \<and> flatten_facts c ! p \<notin> set (ruptured_facts c))
          [0..<length (flatten_facts c)])"
    by (rule list_fact_options_not_ruptured_eq)
  show "py_int (py_str (int p)) = Inr (int p)" for p
    by (rule py_int_py_str)
qed

text \<open>
  With the past facts A, blank, B and the present fact C, B ruptured: the entries carry
  the tokens 0, 2, 3 and 0, 3.
\<close>

theorem option_tokens_are_positions_witness:
  "flatten_facts blanks = [''A'', [], ''B'', ''C'']
   \<and> list_all_fact_options blanks = [(''Passado: A'', ''0''), (''Passado: B'', ''2''), (''Presente: C'', ''3'')]
   \<and> list_fact_options_not_ruptured blanks = [(''Passado: A'', ''0''), (''Presente: C'', ''3'')]
   \<and> py_int ''3'' = Inr 3"
proof -
  have f: "flatten_facts blanks = [''A'', [], ''B'', ''C'']"
    by (simp add: flatten_facts_def blanks_def)
  have l: "[0..<length (flatten_facts blanks)] = [0, 1, 2, 3]"
    unfolding f by (simp add: upt_rec)
  have p: "past (facts blanks) = [''A'', [], ''B'']" "present (facts blanks) = [''C'']"
    "ruptured_facts blanks = [''B'']"
    by (simp_all add: blanks_def)
  have i: "py_int (py_str (int 3)) = Inr (int 3)"
    using option_tokens_are_positions[of blanks] by blast
  show ?thesis
    using option_tokens_are_positions[of blanks] i unfolding l
    by (simp add: f p short_def py_str_small)
qed

lemma option_token_valid:
  assumes "(lbl, tok) \<in> set (list_all_fact_options c) \<or> (lbl, tok) \<in> set (list_fact_options_not_ruptured c)"
  shows "\<exists>p < length (flatten_facts c). tok = py_str (int p) \<and> py_int tok = Inr (int p)
           \<and> flatten_facts c ! p \<noteq> []"
  using assms
  by (auto simp: list_all_fact_options_eq list_fact_options_not_ruptured_eq py_int_py_str)

section \<open>The cap of 25 entries\<close>

text \<open>None of the four builders cuts its list: each has one entry per fact it lists.\<close>

lemma length_options_all_facts: "length (options_all_facts c) = total_facts (facts c)"
  by (simp add: options_all_facts_def length_all_facts)

lemma length_options_non_ruptured:
  "length (options_non_ruptured_facts c) =
     length (filter (\<lambda>f. f \<notin> set (ruptured_facts c)) (flatten_facts c))"
proof -
  have "filter (\<lambda>f. f \<notin> set (ruptured_facts c)) (map (\<lambda>(k, f, j). f) (all_facts_with_index c)) =
      map (\<lambda>(k, f, j). f) (filter (\<lambda>(k, f, j). f \<notin> set (ruptured_facts c)) (all_facts_with_index c))"
    by (simp add: filter_map comp_def case_prod_unfold)
  then have "length (filter (\<lambda>f. f \<notin> set (ruptured_facts c)) (flatten_facts c)) =
      length (filter (\<lambda>(k, f, j). f \<notin> set (ruptured_facts c)) (all_facts_with_index c))"
    unfolding texts_all_facts by simp
  then show ?thesis by (simp add: options_non_ruptured_facts_def)
qed

lemma length_list_all_fact_options:
  "length (list_all_fact_options c) = length (filter (\<lambda>f. f \<noteq> []) (flatten_facts c))"
  by (simp add: list_all_fact_options_def scan_eq flatten_facts_def length_filter_enumerate)

lemma length_list_fact_options_not_ruptured:
  "length (list_fact_options_not_ruptured c) =
     length (filter (\<lambda>f. f \<noteq> [] \<and> f \<notin> set (ruptured_facts c)) (flatten_facts c))"
  by (simp add: list_fact_options_not_ruptured_def scan_not_ruptured_eq flatten_facts_def
        length_filter_enumerate Let_def)

lemma length_select_options: "length (select_options xs) \<le> 25"
  by (simp add: select_options_def)

lemma length_discord_options: "length (discord_options xs) \<le> 25"
  by (simp add: discord_options_def)

text \<open>
  Claim C9 as stated fails on the builders: for a sheet with 26 facts
  \<^verbatim>\<open>_options_all_facts\<close> returns 26 entries.
\<close>

theorem builders_not_capped_counterexample:
  "\<not> length (options_all_facts crowded) \<le> 25"
  by (simp add: length_options_all_facts total_facts_def crowded_def)

text \<open>
  Claim C9, amended. The cap is applied where the menu is built: \<^verbatim>\<open>dm_select_one\<close> and
  the select classes of main.py keep the first 25 pairs, so no menu has more than 25
  entries, whatever the number of facts. The builders themselves return one entry per
  listed fact.
\<close>

theorem menus_capped:
  "length (select_options (options_all_facts c)) \<le> 25
   \<and> length (select_options (options_non_ruptured_facts c)) \<le> 25
   \<and> length (discord_options (list_all_fact_options c)) \<le> 25
   \<and> length (discord_options (list_fact_options_not_ruptured c)) \<le> 25
   \<and> length (options_all_facts c) = total_facts (facts c)
   \<and> length (options_non_ruptured_facts c) =
       length (filter (\<lambda>f. f \<notin> set (ruptured_facts c)) (flatten_facts c))
   \<and> length (list_all_fact_options c) = length (filter (\<lambda>f. f \<noteq> []) (flatten_facts c))
   \<and> length (list_fact_options_not_ruptured c) =
       length (filter (\<lambda>f. f \<noteq> [] \<and> f \<notin> set (ruptured_facts c)) (flatten_facts c))"
  using length_select_options length_discord_options length_options_all_facts[of c]
    length_options_non_ruptured[of c] length_list_all_fact_options[of c]
    length_list_fact_options_not_ruptured[of c]
  by blast

section \<open>Editing a ruptured fact\<close>

text \<open>At a valid index \<^verbatim>\<open>main.set_fact_by_index\<close> replaces exactly the fact at that index.\<close>

lemma set_fact_by_index_valid:
  assumes "0 \<le> i" "i < int (total_facts (facts c))"
  shows "\<exists>c'. set_fact_by_index c i t = Inr (Some (flatten_facts c ! nat i), c')
     \<and> total_facts (facts c') = total_facts (facts c)
     \<and> flatten_facts c' = (flatten_facts c)[nat i := t]
     \<and> ruptured_facts c' = ruptured_facts c \<and> xp c' = xp c \<and> sheet.more c' = sheet.more c"
proof -
  let ?p = "past (facts c)" and ?q = "present (facts c)" and ?r = "future (facts c)"
  consider (a) "i < int (length ?p)"
    | (b) "int (length ?p) \<le> i" "i < int (length ?p) + int (length ?q)"
    | (c) "int (length ?p) + int (length ?q) \<le> i" "i < int (length ?p) + int (length ?q) + int (length ?r)"
    using assms unfolding total_facts_def by linarith
  then show ?thesis
  proof cases
    case a
    then have "swap_at ?p i t = Inr (?p ! nat i, ?p[nat i := t])" "nat i < length ?p"
      using assms by (simp_all add: swap_at_def getitem_valid setitem_valid)
    then show ?thesis using assms a
      by (simp add: set_fact_by_index_def Let_def total_facts_def flatten_facts_def nth_append
            list_update_append)
  next
    case b
    let ?l = "i - int (length ?p)"
    have "0 \<le> ?l" "?l < int (length ?q)" "nat ?l = nat i - length ?p" using b by auto
    then have "swap_at ?q ?l t = Inr (?q ! (nat i - length ?p), ?q[nat i - length ?p := t])"
      using getitem_valid[of ?l ?q] setitem_valid[of ?l ?q t] by (simp add: swap_at_def)
    moreover have "\<not> nat i < length ?p" "nat i - length ?p < length ?q" using b by auto
    ultimately show ?thesis using assms b
      by (simp add: set_fact_by_index_def Let_def total_facts_def flatten_facts_def nth_append
            list_update_append)
  next
    case c
    let ?l = "i - int (length ?p) - int (length ?q)"
    have "0 \<le> ?l" "?l < int (length ?r)" "nat ?l = nat i - length ?p - length ?q" using c by auto
    then have "swap_at ?r ?l t =
        Inr (?r ! (nat i - length ?p - length ?q), ?r[nat i - length ?p - length ?q := t])"
      using getitem_valid[of ?l ?r] setitem_valid[of ?l ?r t] by (simp add: swap_at_def)
    moreover have "\<not> nat i < length ?p" "\<not> nat i - length ?p < length ?q" using c by auto
    ultimately show ?thesis using assms c
      by (simp add: set_fact_by_index_def Let_def total_facts_def flatten_facts_def nth_append
            list_update_append)
  qed
qed

lemma in_set_update_other:
  assumes "x \<in> set xs" "x \<noteq> xs ! n"
  shows "x \<in> set (xs[n := t])"
proof -
  obtain j where j: "j < length xs" "xs ! j = x" using assms(1) by (auto simp: in_set_conv_nth)
  then have "j \<noteq> n" using assms(2) by auto
  then have "xs[n := t] ! j = x" "j < length (xs[n := t])" using j by simp_all
  then show ?thesis using nth_mem[of j "xs[n := t]"] by simp
qed

lemma renamed_invariant:
  assumes "n < length flat" "set rupt \<subseteq> set flat"
    and "set rupt' \<subseteq> (set rupt - {flat ! n}) \<union> {t}"
  shows "set rupt' \<subseteq> set (flat[n := t])"
proof
  fix x assume "x \<in> set rupt'"
  then consider "x = t" | "x \<in> set rupt" "x \<noteq> flat ! n" using assms(3) by auto
  then show "x \<in> set (flat[n := t])"
  proof cases
    case 1
    then show ?thesis using assms(1) by (simp add: set_update_memI)
  next
    case 2
    then have "x \<in> set flat" using assms(2) by auto
    then show ?thesis using 2(2) by (rule in_set_update_other)
  qed
qed

lemma untouched_invariant:
  assumes "set rupt \<subseteq> set flat" "flat ! n \<notin> set rupt"
  shows "set rupt \<subseteq> set (flat[n := t])"
proof
  fix x assume x: "x \<in> set rupt"
  then have "x \<in> set flat" "x \<noteq> flat ! n" using assms by auto
  then show "x \<in> set (flat[n := t])" by (rule in_set_update_other)
qed

text \<open>
  What the two edit paths store once they hold a valid index: the fact replaced, and the
  ruptured list rewritten when the old text was in it (remove and append in rpg_core.py,
  replace in place in main.py).
\<close>

lemma edit_fact_apply_valid:
  assumes "0 \<le> i" "i < int (total_facts (facts c))"
  shows "\<exists>c'. edit_fact_apply c i t now = Inr (Some c')
     \<and> flatten_facts c' = (flatten_facts c)[nat i := t]
     \<and> ruptured_facts c' =
         (if flatten_facts c ! nat i \<in> set (ruptured_facts c)
          then filter (\<lambda>x. x \<noteq> flatten_facts c ! nat i) (ruptured_facts c) @ [t]
          else ruptured_facts c)"
proof -
  let ?old = "flatten_facts c ! nat i"
  obtain c1 where s: "set_fact_by_global_index c i t = Inr (Some ?old, c1)"
    and f: "flatten_facts c1 = (flatten_facts c)[nat i := t]"
    and r: "ruptured_facts c1 = ruptured_facts c"
    using set_fact_valid[OF assms, of t] by blast
  let ?c2 = "(if ?old \<in> set (ruptured_facts c)
              then c1\<lparr>ruptured_facts := filter (\<lambda>x. x \<noteq> ?old) (ruptured_facts c) @ [t]\<rparr>
              else c1)\<lparr>updated_at := now\<rparr>"
  have e: "edit_fact_apply c i t now = Inr (Some ?c2)"
    by (simp add: edit_fact_apply_def s r Let_def)
  have "flatten_facts ?c2 = (flatten_facts c)[nat i := t]"
    using f by (simp add: flatten_facts_def)
  moreover have "ruptured_facts ?c2 =
         (if ?old \<in> set (ruptured_facts c)
          then filter (\<lambda>x. x \<noteq> ?old) (ruptured_facts c) @ [t]
          else ruptured_facts c)"
    using r by simp
  ultimately show ?thesis using e by blast
qed

lemma on_submit_valid:
  assumes "strip novo_texto \<noteq> []" "data target = Some lc"
    and "0 \<le> i" "i < int (total_facts (facts lc))"
  shows "\<exists>lc'. EditarFatoModal_on_submit requester target i requester novo_texto now data =
        Inr (FactEdited (flatten_facts lc ! nat i) (strip novo_texto), data(target \<mapsto> lc'))
     \<and> flatten_facts lc' = (flatten_facts lc)[nat i := strip novo_texto]
     \<and> ruptured_facts lc' =
         (if flatten_facts lc ! nat i \<in> set (ruptured_facts lc)
          then map (\<lambda>x. if x = flatten_facts lc ! nat i then strip novo_texto else x) (ruptured_facts lc)
          else ruptured_facts lc)"
proof -
  let ?old = "flatten_facts lc ! nat i" and ?t = "strip novo_texto"
  obtain c1 where s: "set_fact_by_index lc i ?t = Inr (Some ?old, c1)"
    and f: "flatten_facts c1 = (flatten_facts lc)[nat i := ?t]"
    and r: "ruptured_facts c1 = ruptured_facts lc"
    using set_fact_by_index_valid[OF assms(3,4), of ?t] by blast
  let ?c2 = "(if ?old \<in> set (ruptured_facts lc)
              then c1\<lparr>ruptured_facts := map (\<lambda>x. if x = ?old then ?t else x) (ruptured_facts lc)\<rparr>
              else c1)\<lparr>updated_at := now\<rparr>"
  have e: "EditarFatoModal_on_submit requester target i requester novo_texto now data =
      Inr (FactEdited ?old ?t, data(target \<mapsto> ?c2))"
    using assms(1,2) by (simp add: EditarFatoModal_on_submit_def ensure_char_defaults_def s r Let_def)
  have "flatten_facts ?c2 = (flatten_facts lc)[nat i := ?t]"
    using f by (simp add: flatten_facts_def)
  moreover have "ruptured_facts ?c2 =
         (if ?old \<in> set (ruptured_facts lc)
          then map (\<lambda>x. if x = ?old then ?t else x) (ruptured_facts lc)
          else ruptured_facts lc)"
    using r by simp
  ultimately show ?thesis using e by blast
qed

lemma rename_post:
  assumes "n < length flat"
    and "rupt' = (if flat ! n \<in> set rupt then X else rupt)"
    and "flat ! n \<in> set rupt \<Longrightarrow> set X = (set rupt - {flat ! n}) \<union> {t}"
  shows "(flat ! n \<in> set rupt \<longrightarrow> t \<in> set rupt' \<and> (t \<noteq> flat ! n \<longrightarrow> flat ! n \<notin> set rupt'))
     \<and> (set rupt \<subseteq> set flat \<longrightarrow> set rupt' \<subseteq> set (flat[n := t]))"
proof (cases "flat ! n \<in> set rupt")
  case True
  then have x: "set rupt' = (set rupt - {flat ! n}) \<union> {t}" using assms(2,3) by simp
  then have "set rupt \<subseteq> set flat \<Longrightarrow> set rupt' \<subseteq> set (flat[n := t])"
    using renamed_invariant[OF assms(1), of rupt rupt' t] by simp
  then show ?thesis using x True by auto
next
  case False
  then have "rupt' = rupt" using assms(2) by simp
  then show ?thesis using False untouched_invariant[of rupt flat n t] by auto
qed

text \<open>
  Claim C5. For a valid global index, when the old text was in \<^verbatim>\<open>ruptured_facts\<close>, the
  new text is in it after the edit and, the edit being a rename (the new text differs
  from the old one), the old text is no longer in it: the rupture follows the fact. And
  if every ruptured text was among the facts before the edit, this still holds after it.
  First conjunct: the end of \<^verbatim>\<open>rpg_core.edit_fact_flow\<close>; second conjunct:
  \<^verbatim>\<open>EditarFatoModal.on_submit\<close> of main.py, submitted by the requester with a text that
  is not blank.
\<close>

theorem rupture_follows_rename:
  "(0 \<le> i \<and> i < int (total_facts (facts c)) \<longrightarrow>
      (\<exists>c'. edit_fact_apply c i t now = Inr (Some c')
         \<and> flatten_facts c' = (flatten_facts c)[nat i := t]
         \<and> (flatten_facts c ! nat i \<in> set (ruptured_facts c) \<longrightarrow>
               t \<in> set (ruptured_facts c')
               \<and> (t \<noteq> flatten_facts c ! nat i \<longrightarrow> flatten_facts c ! nat i \<notin> set (ruptured_facts c')))
         \<and> (set (ruptured_facts c) \<subseteq> set (flatten_facts c) \<longrightarrow>
               set (ruptured_facts c') \<subseteq> set (flatten_facts c'))))
   \<and> (strip novo_texto \<noteq> [] \<and> data target = Some lc \<and> 0 \<le> j \<and> j < int (total_facts (facts lc)) \<longrightarrow>
      (\<exists>lc'. EditarFatoModal_on_submit requester target j requester novo_texto now data =
               Inr (FactEdited (flatten_facts lc ! nat j) (strip novo_texto), data(target \<mapsto> lc'))
         \<and> flatten_facts lc' = (flatten_facts lc)[nat j := strip novo_texto]
         \<and> (flatten_facts lc ! nat j \<in> set (ruptured_facts lc) \<longrightarrow>
               strip novo_texto \<in> set (ruptured_facts lc')
               \<and> (strip novo_texto \<noteq> flatten_facts lc ! nat j \<longrightarrow>
                     flatten_facts lc ! nat j \<notin> set (ruptured_facts lc')))
         \<and> (set (ruptured_facts lc) \<subseteq> set (flatten_facts lc) \<longrightarrow>
               set (ruptured_facts lc') \<subseteq> set (flatten_facts lc'))))"
proof (intro conjI impI)
  assume v: "0 \<le> i \<and> i < int (total_facts (facts c))"
  then have n: "nat i < length (flatten_facts c)" unfolding length_flatten by linarith
  obtain c' where e: "edit_fact_apply c i t now = Inr (Some c')"
    and f: "flatten_facts c' = (flatten_facts c)[nat i := t]"
    and r: "ruptured_facts c' =
         (if flatten_facts c ! nat i \<in> set (ruptured_facts c)
          then filter (\<lambda>x. x \<noteq> flatten_facts c ! nat i) (ruptured_facts c) @ [t]
          else ruptured_facts c)"
    using edit_fact_apply_valid[of i c t now] v by blast
  have "set (filter (\<lambda>x. x \<noteq> flatten_facts c ! nat i) (ruptured_facts c) @ [t]) =
      (set (ruptured_facts c) - {flatten_facts c ! nat i}) \<union> {t}"
    by auto
  from rename_post[OF n r this] e f
  show "\<exists>c'. edit_fact_apply c i t now = Inr (Some c')
         \<and> flatten_facts c' = (flatten_facts c)[nat i := t]
         \<and> (flatten_facts c ! nat i \<in> set (ruptured_facts c) \<longrightarrow>
               t \<in> set (ruptured_facts c')
               \<and> (t \<noteq> flatten_facts c ! nat i \<longrightarrow> flatten_facts c ! nat i \<notin> set (ruptured_facts c')))
         \<and> (set (ruptured_facts c) \<subseteq> set (flatten_facts c) \<longrightarrow>
               set (ruptured_facts c') \<subseteq> set (flatten_facts c'))"
    by (intro exI[of _ c']) simp
next
  let ?t = "strip novo_texto" and ?old = "flatten_facts lc ! nat j"
  assume v: "?t \<noteq> [] \<and> data target = Some lc \<and> 0 \<le> j \<and> j < int (total_facts (facts lc))"
  then have n: "nat j < length (flatten_facts lc)" unfolding length_flatten by linarith
  obtain lc' where e: "EditarFatoModal_on_submit requester target j requester novo_texto now data =
        Inr (FactEdited ?old ?t, data(target \<mapsto> lc'))"
    and f: "flatten_facts lc' = (flatten_facts lc)[nat j := ?t]"
    and r: "ruptured_facts lc' =
         (if ?old \<in> set (ruptured_facts lc)
          then map (\<lambda>x. if x = ?old then ?t else x) (ruptured_facts lc)
          else ruptured_facts lc)"
    using on_submit_valid[of novo_texto data target lc j requester now] v by blast
  have "?old \<in> set (ruptured_facts lc) \<Longrightarrow>
      set (map (\<lambda>x. if x = ?old then ?t else x) (ruptured_facts lc)) =
      (set (ruptured_facts lc) - {?old}) \<union> {?t}"
    by auto
  from rename_post[OF n r this] e f
  show "\<exists>lc'. EditarFatoModal_on_submit requester target j requester novo_texto now data =
               Inr (FactEdited ?old ?t, data(target \<mapsto> lc'))
         \<and> flatten_facts lc' = (flatten_facts lc)[nat j := ?t]
         \<and> (?old \<in> set (ruptured_facts lc) \<longrightarrow>
               ?t \<in> set (ruptured_facts lc')
               \<and> (?t \<noteq> ?old \<longrightarrow> ?old \<notin> set (ruptured_facts lc')))
         \<and> (set (ruptured_facts lc) \<subseteq> set (flatten_facts lc) \<longrightarrow>
               set (ruptured_facts lc') \<subseteq> set (flatten_facts lc'))"
    by (intro exI[of _ lc']) simp
qed

lemma strip_A: "strip ''A'' = ''A''" "strip ''A2'' = ''A2''" "strip '' B2 '' = ''B2''"
  by (simp_all add: strip_def strip_by_def isspace_def)

text \<open>
  An edit that submits the text unchanged (the modal opens filled with the current text)
  is no rename: the ruptured fact A edited to A stays in \<^verbatim>\<open>ruptured_facts\<close>.
\<close>

lemma unchanged_text_keeps_entry:
  "''A'' \<in> set (ruptured_facts legacy_A)
   \<and> EditarFatoModal_on_submit 7 ''7'' 0 7 ''A'' ''2024-02-02T00:00:00+00:00'' [''7'' \<mapsto> legacy_A] =
       Inr (FactEdited ''A'' ''A'', [''7'' \<mapsto> legacy_A\<lparr>updated_at := ''2024-02-02T00:00:00+00:00''\<rparr>])
   \<and> ''A'' \<in> set (ruptured_facts (legacy_A\<lparr>updated_at := ''2024-02-02T00:00:00+00:00''\<rparr>))"
  by (simp add: EditarFatoModal_on_submit_def strip_A ensure_char_defaults_def set_fact_by_index_def
        swap_at_def getitem_def setitem_def subscript_def legacy_A_def Let_def)

text \<open>Renaming the ruptured fact B to B2 in rpg_core.py, and the ruptured fact A to A2 in main.py.\<close>

theorem rupture_follows_rename_witness:
  "(0::int) \<le> 1 \<and> 1 < int (total_facts (facts sheet_B_ruptured))
   \<and> flatten_facts sheet_B_ruptured ! nat 1 = ''B''
   \<and> ''B'' \<in> set (ruptured_facts sheet_B_ruptured)
   \<and> set (ruptured_facts sheet_B_ruptured) \<subseteq> set (flatten_facts sheet_B_ruptured)
   \<and> (\<exists>c'. edit_fact_apply sheet_B_ruptured 1 ''B2'' ''2024-02-02T00:00:00+00:00'' = Inr (Some c')
         \<and> ''B2'' \<in> set (ruptured_facts c') \<and> ''B'' \<notin> set (ruptured_facts c')
         \<and> set (ruptured_facts c') \<subseteq> set (flatten_facts c'))
   \<and> strip ''A2'' \<noteq> [] \<and> [''7'' \<mapsto> legacy_A] ''7'' = Some legacy_A
   \<and> (0::int) \<le> 0 \<and> 0 < int (total_facts (facts legacy_A))
   \<and> flatten_facts legacy_A ! nat 0 = ''A''
   \<and> ''A'' \<in> set (ruptured_facts legacy_A)
   \<and> set (ruptured_facts legacy_A) \<subseteq> set (flatten_facts legacy_A)
   \<and> (\<exists>lc'. EditarFatoModal_on_submit 7 ''7'' 0 7 ''A2'' ''2024-02-02T00:00:00+00:00'' [''7'' \<mapsto> legacy_A] =
               Inr (FactEdited ''A'' ''A2'', [''7'' \<mapsto> legacy_A](''7'' \<mapsto> lc'))
         \<and> ''A2'' \<in> set (ruptured_facts lc') \<and> ''A'' \<notin> set (ruptured_facts lc')
         \<and> set (ruptured_facts lc') \<subseteq> set (flatten_facts lc'))"
proof -
  have a: "(0::int) \<le> 1 \<and> 1 < int (total_facts (facts sheet_B_ruptured))"
    "flatten_facts sheet_B_ruptured ! nat 1 = ''B''"
    "''B'' \<in> set (ruptured_facts sheet_B_ruptured)"
    "set (ruptured_facts sheet_B_ruptured) \<subseteq> set (flatten_facts sheet_B_ruptured)"
    by (simp_all add: sheet_B_ruptured_def sheet_ABC_def total_facts_def flatten_facts_def)
  have b: "strip ''A2'' \<noteq> [] \<and> [''7'' \<mapsto> legacy_A] ''7'' = Some legacy_A
       \<and> (0::int) \<le> 0 \<and> 0 < int (total_facts (facts legacy_A))"
    "flatten_facts legacy_A ! nat 0 = ''A''"
    "''A'' \<in> set (ruptured_facts legacy_A)"
    "set (ruptured_facts legacy_A) \<subseteq> set (flatten_facts legacy_A)"
    "strip ''A2'' = ''A2''"
    by (simp_all add: strip_A legacy_A_def total_facts_def flatten_facts_def)
  note t = rupture_follows_rename[where i = 1 and c = sheet_B_ruptured and t = "''B2''"
      and now = "''2024-02-02T00:00:00+00:00''" and novo_texto = "''A2''"
      and data = "[''7'' \<mapsto> legacy_A]" and target = "''7''" and lc = legacy_A and j = 0
      and requester = 7]
  have c: "\<exists>c'. edit_fact_apply sheet_B_ruptured 1 ''B2'' ''2024-02-02T00:00:00+00:00'' = Inr (Some c')
         \<and> ''B2'' \<in> set (ruptured_facts c') \<and> ''B'' \<notin> set (ruptured_facts c')
         \<and> set (ruptured_facts c') \<subseteq> set (flatten_facts c')"
    using t a by auto
  have d: "\<exists>lc'. EditarFatoModal_on_submit 7 ''7'' 0 7 ''A2'' ''2024-02-02T00:00:00+00:00'' [''7'' \<mapsto> legacy_A] =
               Inr (FactEdited ''A'' ''A2'', [''7'' \<mapsto> legacy_A](''7'' \<mapsto> lc'))
         \<and> ''A2'' \<in> set (ruptured_facts lc') \<and> ''A'' \<notin> set (ruptured_facts lc')
         \<and> set (ruptured_facts lc') \<subseteq> set (flatten_facts lc')"
    using t b by auto
  show ?thesis using a b(1-4) c d by blast
qed

section \<open>Rupturing a fact\<close>

text \<open>
  What the two rupture paths store for a valid index: the end of
  \<^verbatim>\<open>rpg_core.rupture_fact_flow\<close>, and \<^verbatim>\<open>RupturaSelect.callback\<close> of main.py, which refuses
  a fact that is already ruptured.
\<close>

lemma rupture_apply_valid:
  assumes "0 \<le> i" "i < int (total_facts (facts c))"
  shows "rupture_apply c i now =
     Inr (c\<lparr>ruptured_facts :=
              (if flatten_facts c ! nat i \<notin> set (ruptured_facts c)
               then ruptured_facts c @ [flatten_facts c ! nat i] else ruptured_facts c),
            xp := xp c + 1,
            reserves := (reserves c)\<lparr>pv := (pv (reserves c))\<lparr>current := maxv (pv (reserves c))\<rparr>,
                                      pm := (pm (reserves c))\<lparr>current := maxv (pm (reserves c))\<rparr>\<rparr>,
            updated_at := now\<rparr>)"
  by (simp add: rupture_apply_def fact_text_at_valid[OF assms] Let_def)

lemma callback_valid:
  assumes "py_int picked = Inr j" "data target = Some lc" "0 \<le> j" "j < int (total_facts (facts lc))"
    and "flatten_facts lc ! nat j \<notin> set (ruptured_facts lc)"
  shows "RupturaSelect_callback requester target requester picked now data =
     Inr (RuptureApplied (flatten_facts lc ! nat j),
          data(target \<mapsto> lc\<lparr>ruptured_facts := ruptured_facts lc @ [flatten_facts lc ! nat j],
                               updated_at := now\<rparr>))"
  using assms
  by (simp add: RupturaSelect_callback_def ensure_char_defaults_def Let_def length_flatten)

lemma callback_already_ruptured:
  assumes "py_int picked = Inr j" "data target = Some lc" "0 \<le> j" "j < int (total_facts (facts lc))"
    and "flatten_facts lc ! nat j \<in> set (ruptured_facts lc)"
  shows "RupturaSelect_callback requester target requester picked now data = Inr (AlreadyRuptured, data)"
  using assms
  by (simp add: RupturaSelect_callback_def ensure_char_defaults_def Let_def length_flatten)

text \<open>
  The tokens of the rupture menus are valid indices of facts that are not ruptured, so a
  pick from the menu of main.py meets the conditions under which the callback ruptures.
\<close>

lemma all_facts_member:
  assumes "(k, f, j) \<in> set (all_facts_with_index c)"
  shows "j < total_facts (facts c) \<and> f = flatten_facts c ! j"
proof -
  obtain m where m: "m < length (all_facts_with_index c)" "all_facts_with_index c ! m = (k, f, j)"
    using assms by (auto simp: in_set_conv_nth)
  then have "m < total_facts (facts c)" by (simp add: length_all_facts)
  from nth_all_facts[OF this] m show ?thesis using \<open>m < total_facts (facts c)\<close> by auto
qed

lemma non_ruptured_tokens:
  assumes "(lbl, tok) \<in> set (options_non_ruptured_facts c)"
  shows "\<exists>p < total_facts (facts c). tok = py_str (int p)
           \<and> flatten_facts c ! p \<notin> set (ruptured_facts c)"
proof -
  obtain k f j where e: "(k, f, j) \<in> set (all_facts_with_index c)" "f \<notin> set (ruptured_facts c)"
    "tok = py_str (int j)"
    using assms by (auto simp: options_non_ruptured_facts_def)
  then show ?thesis using all_facts_member[OF e(1)] by auto
qed

lemma not_ruptured_token:
  assumes "(lbl, tok) \<in> set (list_fact_options_not_ruptured c)"
  shows "\<exists>p < length (flatten_facts c). tok = py_str (int p)
           \<and> flatten_facts c ! p \<notin> set (ruptured_facts c)"
  using assms unfolding list_fact_options_not_ruptured_eq by auto

lemma picked_from_menu:
  assumes "values0 (discord_options (list_fact_options_not_ruptured lc)) k = Some picked"
  shows "\<exists>p < length (flatten_facts lc). py_int picked = Inr (int p)
           \<and> flatten_facts lc ! p \<notin> set (ruptured_facts lc)"
proof -
  let ?opts = "list_fact_options_not_ruptured lc"
  have a: "k < length (discord_options ?opts)" "picked = opt_value (discord_options ?opts ! k)"
    using assms by (simp_all add: values0_def split: if_splits)
  have k: "k < length (take 25 ?opts)" using a(1) by (simp add: discord_options_def)
  then have v: "picked = snd (take 25 ?opts ! k)"
    using a(2) by (simp add: discord_options_def case_prod_unfold del: nth_take)
  have "take 25 ?opts ! k \<in> set (take 25 ?opts)" using k by (rule nth_mem)
  then have "take 25 ?opts ! k \<in> set ?opts" using set_take_subset[of 25 ?opts] by (rule subsetD[rotated])
  then have "(fst (take 25 ?opts ! k), picked) \<in> set ?opts" using v by simp
  from not_ruptured_token[OF this] obtain p where "p < length (flatten_facts lc)"
    "picked = py_str (int p)" "flatten_facts lc ! p \<notin> set (ruptured_facts lc)"
    by blast
  then show ?thesis using py_int_py_str[of p] by (intro exI[of _ p]) simp
qed

text \<open>
  Claim C6, amended. In rpg_core.py the update applied for a valid global index puts the
  chosen text into \<^verbatim>\<open>ruptured_facts\<close> without adding a duplicate (exactly once when it
  was not there), adds 1 to xp, sets the current PV and PM to their maxima and leaves
  destiny and the facts as they were. In main.py a successful callback appends the chosen
  text to \<^verbatim>\<open>ruptured_facts\<close> and changes neither xp nor the condition gauge.
\<close>

theorem rupture_effects:
  "(0 \<le> i \<and> i < int (total_facts (facts c)) \<longrightarrow>
      (\<exists>c'. rupture_apply c i now = Inr c'
         \<and> flatten_facts c ! nat i \<in> set (ruptured_facts c')
         \<and> (flatten_facts c ! nat i \<notin> set (ruptured_facts c) \<longrightarrow>
               count_list (ruptured_facts c') (flatten_facts c ! nat i) = 1)
         \<and> (distinct (ruptured_facts c) \<longrightarrow> distinct (ruptured_facts c'))
         \<and> xp c' = xp c + 1
         \<and> current (pv (reserves c')) = maxv (pv (reserves c'))
         \<and> maxv (pv (reserves c')) = maxv (pv (reserves c))
         \<and> current (pm (reserves c')) = maxv (pm (reserves c'))
         \<and> maxv (pm (reserves c')) = maxv (pm (reserves c))
         \<and> destiny (reserves c') = destiny (reserves c)
         \<and> facts c' = facts c))
   \<and> (py_int picked = Inr j \<and> data target = Some lc \<and> 0 \<le> j \<and> j < int (total_facts (facts lc))
        \<and> flatten_facts lc ! nat j \<notin> set (ruptured_facts lc) \<longrightarrow>
      (\<exists>lc'. RupturaSelect_callback requester target requester picked now data =
               Inr (RuptureApplied (flatten_facts lc ! nat j), data(target \<mapsto> lc'))
         \<and> ruptured_facts lc' = ruptured_facts lc @ [flatten_facts lc ! nat j]
         \<and> xp lc' = xp lc
         \<and> condition lc' = condition lc
         \<and> facts lc' = facts lc))"
proof (intro conjI impI)
  assume v: "0 \<le> i \<and> i < int (total_facts (facts c))"
  let ?f = "flatten_facts c ! nat i"
  let ?c' = "c\<lparr>ruptured_facts :=
              (if ?f \<notin> set (ruptured_facts c) then ruptured_facts c @ [?f] else ruptured_facts c),
            xp := xp c + 1,
            reserves := (reserves c)\<lparr>pv := (pv (reserves c))\<lparr>current := maxv (pv (reserves c))\<rparr>,
                                      pm := (pm (reserves c))\<lparr>current := maxv (pm (reserves c))\<rparr>\<rparr>,
            updated_at := now\<rparr>"
  have e: "rupture_apply c i now = Inr ?c'" using rupture_apply_valid v by blast
  have n: "?f \<notin> set (ruptured_facts c) \<Longrightarrow> count_list (ruptured_facts c) ?f = 0"
    by (simp add: count_list_0_iff)
  show "\<exists>c'. rupture_apply c i now = Inr c'
         \<and> ?f \<in> set (ruptured_facts c')
         \<and> (?f \<notin> set (ruptured_facts c) \<longrightarrow> count_list (ruptured_facts c') ?f = 1)
         \<and> (distinct (ruptured_facts c) \<longrightarrow> distinct (ruptured_facts c'))
         \<and> xp c' = xp c + 1
         \<and> current (pv (reserves c')) = maxv (pv (reserves c'))
         \<and> maxv (pv (reserves c')) = maxv (pv (reserves c))
         \<and> current (pm (reserves c')) = maxv (pm (reserves c'))
         \<and> maxv (pm (reserves c')) = maxv (pm (reserves c))
         \<and> destiny (reserves c') = destiny (reserves c)
         \<and> facts c' = facts c"
    using e n by (intro exI[of _ ?c']) simp
next
  assume v: "py_int picked = Inr j \<and> data target = Some lc \<and> 0 \<le> j \<and> j < int (total_facts (facts lc))
        \<and> flatten_facts lc ! nat j \<notin> set (ruptured_facts lc)"
  let ?f = "flatten_facts lc ! nat j"
  let ?lc' = "lc\<lparr>ruptured_facts := ruptured_facts lc @ [?f], updated_at := now\<rparr>"
  have e: "RupturaSelect_callback requester target requester picked now data =
      Inr (RuptureApplied ?f, data(target \<mapsto> ?lc'))"
    using callback_valid v by blast
  show "\<exists>lc'. RupturaSelect_callback requester target requester picked now data =
               Inr (RuptureApplied ?f, data(target \<mapsto> lc'))
         \<and> ruptured_facts lc' = ruptured_facts lc @ [?f]
         \<and> xp lc' = xp lc
         \<and> condition lc' = condition lc
         \<and> facts lc' = facts lc"
    using e by (intro exI[of _ ?lc']) simp
qed

lemma py_int_1: "py_int ''1'' = Inr 1"
  using py_int_py_str[of 1] py_str_small(2) by simp

text \<open>
  Claim C6 as stated fails on main.py: rupturing B succeeds and xp stays 0.
\<close>

theorem legacy_rupture_keeps_xp_counterexample:
  "RupturaSelect_callback 7 ''7'' 7 ''1'' ''2024-02-02T00:00:00+00:00'' [''7'' \<mapsto> legacy_AB] =
     Inr (RuptureApplied ''B'',
          [''7'' \<mapsto> legacy_AB\<lparr>ruptured_facts := [''A'', ''B''],
                                  updated_at := ''2024-02-02T00:00:00+00:00''\<rparr>])
   \<and> xp (legacy_AB\<lparr>ruptured_facts := [''A'', ''B''], updated_at := ''2024-02-02T00:00:00+00:00''\<rparr>)
       \<noteq> xp legacy_AB + 1"
  by (simp add: RupturaSelect_callback_def py_int_1 ensure_char_defaults_def flatten_facts_def
        legacy_AB_def legacy_A_def Let_def)

text \<open>
  A sheet of rpg_core.py with PV 1/4, PM 0/5, destiny 1/2 and 2 XP rupturing its fact A;
  the sheet of main.py rupturing B.
\<close>

theorem rupture_effects_witness:
  "(0::int) \<le> 0 \<and> 0 < int (total_facts (facts wounded))
   \<and> flatten_facts wounded ! nat 0 = ''A'' \<and> ''A'' \<notin> set (ruptured_facts wounded)
   \<and> distinct (ruptured_facts wounded)
   \<and> (\<exists>c'. rupture_apply wounded 0 ''2024-02-02T00:00:00+00:00'' = Inr c'
         \<and> ruptured_facts c' = [''A''] \<and> count_list (ruptured_facts c') ''A'' = 1
         \<and> distinct (ruptured_facts c') \<and> xp c' = 3
         \<and> pv (reserves c') = \<lparr>current = 4, maxv = 4\<rparr>
         \<and> pm (reserves c') = \<lparr>current = 5, maxv = 5\<rparr>
         \<and> destiny (reserves c') = \<lparr>current = 1, maxv = 2\<rparr>)
   \<and> py_int ''1'' = Inr 1 \<and> [''7'' \<mapsto> legacy_AB] ''7'' = Some legacy_AB
   \<and> (0::int) \<le> 1 \<and> 1 < int (total_facts (facts legacy_AB))
   \<and> flatten_facts legacy_AB ! nat 1 = ''B'' \<and> ''B'' \<notin> set (ruptured_facts legacy_AB)
   \<and> (\<exists>lc'. RupturaSelect_callback 7 ''7'' 7 ''1'' ''2024-02-02T00:00:00+00:00'' [''7'' \<mapsto> legacy_AB] =
               Inr (RuptureApplied ''B'', [''7'' \<mapsto> legacy_AB](''7'' \<mapsto> lc'))
         \<and> ruptured_facts lc' = [''A'', ''B''] \<and> xp lc' = 0)"
proof -
  have a: "(0::int) \<le> 0 \<and> 0 < int (total_facts (facts wounded))"
    "flatten_facts wounded ! nat 0 = ''A''" "''A'' \<notin> set (ruptured_facts wounded)"
    "distinct (ruptured_facts wounded)" "ruptured_facts wounded = []" "xp wounded = 2"
    "reserves wounded = \<lparr>pv = \<lparr>current = 1, maxv = 4\<rparr>, pm = \<lparr>current = 0, maxv = 5\<rparr>,
                           destiny = \<lparr>current = 1, maxv = 2\<rparr>\<rparr>"
    by (simp_all add: wounded_def hero_def make_new_character_schema_def total_facts_def flatten_facts_def)
  have b: "py_int ''1'' = Inr 1 \<and> [''7'' \<mapsto> legacy_AB] ''7'' = Some legacy_AB
       \<and> (0::int) \<le> 1 \<and> 1 < int (total_facts (facts legacy_AB))
       \<and> flatten_facts legacy_AB ! nat 1 \<notin> set (ruptured_facts legacy_AB)"
    "flatten_facts legacy_AB ! nat 1 = ''B''" "''B'' \<notin> set (ruptured_facts legacy_AB)"
    "ruptured_facts legacy_AB = [''A'']" "xp legacy_AB = 0"
    by (simp_all add: py_int_1 legacy_AB_def legacy_A_def total_facts_def flatten_facts_def)
  note t = rupture_effects[where i = 0 and c = wounded and now = "''2024-02-02T00:00:00+00:00''"
      and picked = "''1''" and j = 1 and data = "[''7'' \<mapsto> legacy_AB]" and target = "''7''"
      and lc = legacy_AB and requester = 7]
  from t a(1) obtain c' where c: "rupture_apply wounded 0 ''2024-02-02T00:00:00+00:00'' = Inr c'"
    "flatten_facts wounded ! nat 0 \<notin> set (ruptured_facts wounded) \<longrightarrow>
       count_list (ruptured_facts c') (flatten_facts wounded ! nat 0) = 1"
    "distinct (ruptured_facts wounded) \<longrightarrow> distinct (ruptured_facts c')"
    "xp c' = xp wounded + 1"
    "current (pv (reserves c')) = maxv (pv (reserves c'))"
    "maxv (pv (reserves c')) = maxv (pv (reserves wounded))"
    "current (pm (reserves c')) = maxv (pm (reserves c'))"
    "maxv (pm (reserves c')) = maxv (pm (reserves wounded))"
    "destiny (reserves c') = destiny (reserves wounded)"
    by blast
  have r: "ruptured_facts c' = [''A'']"
    using c(1) rupture_apply_valid[of 0 wounded "''2024-02-02T00:00:00+00:00''"] a by auto
  have c1: "\<exists>c'. rupture_apply wounded 0 ''2024-02-02T00:00:00+00:00'' = Inr c'
         \<and> ruptured_facts c' = [''A''] \<and> count_list (ruptured_facts c') ''A'' = 1
         \<and> distinct (ruptured_facts c') \<and> xp c' = 3
         \<and> pv (reserves c') = \<lparr>current = 4, maxv = 4\<rparr>
         \<and> pm (reserves c') = \<lparr>current = 5, maxv = 5\<rparr>
         \<and> destiny (reserves c') = \<lparr>current = 1, maxv = 2\<rparr>"
    using c r a by (intro exI[of _ c']) (simp add: gauge.equality)
  from t b(1) obtain lc' where l: "RupturaSelect_callback 7 ''7'' 7 ''1'' ''2024-02-02T00:00:00+00:00'' [''7'' \<mapsto> legacy_AB] =
               Inr (RuptureApplied (flatten_facts legacy_AB ! nat 1), [''7'' \<mapsto> legacy_AB](''7'' \<mapsto> lc'))"
    "ruptured_facts lc' = ruptured_facts legacy_AB @ [flatten_facts legacy_AB ! nat 1]"
    "xp lc' = xp legacy_AB"
    by blast
  have d: "\<exists>lc'. RupturaSelect_callback 7 ''7'' 7 ''1'' ''2024-02-02T00:00:00+00:00'' [''7'' \<mapsto> legacy_AB] =
               Inr (RuptureApplied ''B'', [''7'' \<mapsto> legacy_AB](''7'' \<mapsto> lc'))
         \<and> ruptured_facts lc' = [''A'', ''B''] \<and> xp lc' = 0"
    using l b(2,4,5) by (intro exI[of _ lc']) simp
  show ?thesis using a(1-4) b(1-3) c1 d by blast
qed

section \<open>The creation timestamp\<close>

text \<open>
  \<^verbatim>\<open>main.personagem_criar\<close> takes \<^verbatim>\<open>created_at\<close> from the record already stored for the
  user, if there is one, and touches no other record.
\<close>

lemma personagem_criar_saves:
  assumes "personagem_criar busy user typed now data = (SheetSaved, data')"
  shows "map_option created_at (data' (py_str user)) =
       Some (case data (py_str user) of None \<Rightarrow> now | Some prior \<Rightarrow> created_at prior)
     \<and> (\<forall>k. k \<noteq> py_str user \<longrightarrow> data' k = data k)"
  using assms unfolding personagem_criar_def ensure_char_defaults_def Let_def
  by (auto split: if_splits option.splits)

lemma personagem_criar_keeps_created_at:
  assumes "data (py_str user) = Some prior"
    and "personagem_criar busy user typed now data = (SheetSaved, data')"
  shows "map_option created_at (data' (py_str user)) = Some (created_at prior)"
  using personagem_criar_saves[OF assms(2)] assms(1) by auto

lemma personagem_criar_example:
  "\<exists>data'. personagem_criar False 7
      (Some '' '' # map Some [''Ayla'', ''p1'', ''p2'', ''q1'', ''q2'', ''f1'', ''medo''])
      ''2025-05-05T10:00:00+00:00'' [''7'' \<mapsto> legacy_A] = (SheetSaved, data')
     \<and> map_option created_at (data' ''7'') = Some ''2024-01-01T00:00:00+00:00''"
  by (simp add: personagem_criar_def strip_def strip_by_def isspace_def ensure_char_defaults_def
        py_str_7 legacy_A_def Let_def)

text \<open>
  The wizard of rpg_core.py stamps the sheet with the clock reading of its start, and
  \<^verbatim>\<open>bot.criar_personagem\<close> saves that sheet without looking at the stored one.
\<close>

lemma apply_archetype_created_at:
  "apply_archetype char key = Inr char' \<Longrightarrow> created_at char' = created_at char"
  by (auto simp: apply_archetype_def split: option.splits)

lemma run_character_wizard_created_at:
  assumes "run_character_wizard busy uid typed race_picks class_picks archetype_picks t0 t1 t2 =
      Inr (Some char)"
  shows "created_at char = t0"
  using assms unfolding run_character_wizard_def Let_def
  by (auto simp: make_new_character_schema_def dest!: apply_archetype_created_at
        split: if_splits option.splits sum.splits prod.splits)

lemma criar_personagem_created_at:
  assumes "criar_personagem busy uid typed race_picks class_picks archetype_picks t0 t1 t2 data =
      Inr data'" "data' \<noteq> data"
  shows "map_option created_at (data' (py_str uid)) = Some t0"
  using assms run_character_wizard_created_at[of busy uid typed race_picks class_picks archetype_picks t0 t1 t2]
  by (auto simp: criar_personagem_def save_character_def split: sum.splits option.splits)

text \<open>
  Claim C8 asks that the record saved over an existing one keeps the prior
  \<^verbatim>\<open>created_at\<close>. User 7 has a sheet created on 2024-01-01 and completes the wizard of
  rpg_core.py started on 2025-05-05: the saved sheet is created on 2025-05-05.
\<close>

theorem criar_personagem_new_created_at:
  "map_option created_at ([''7'' \<mapsto> hero] ''7'') = Some ''2024-01-01T00:00:00+00:00''
   \<and> (case criar_personagem False 7 wizard_messages [\<lparr>actor = 7, choice = 0\<rparr>]
            [\<lparr>actor = 7, choice = 0\<rparr>] [\<lparr>actor = 7, choice = 4\<rparr>]
            ''2025-05-05T10:00:00+00:00'' ''2025-05-05T10:00:00+00:00'' ''2025-05-05T10:05:00+00:00''
            [''7'' \<mapsto> hero] of
         Inl e \<Rightarrow> None
       | Inr data \<Rightarrow> map_option (\<lambda>c. (created_at c, archetype c, past (facts c), xp c)) (data ''7''))
       = Some (''2025-05-05T10:00:00+00:00'', ''conjurador'', [''p1'', ''p2'', ''p3''], 0)"
  by code_simp

end
